theory Spec2Isabelle
  imports Complex_Main
begin

section \<open>The host document as an explicit store\<close>

text \<open>
  The macros of this repository act on a FreeCAD document through the host's scripting
  interface. The document is modelled as the ordered list \<open>doc.Objects\<close>; an object
  reference is the position of the object in that list. The macros never delete an
  object, so positions are stable and a new object always gets the next position.

  Python strings are modelled as \<open>string\<close>; the letters, type tags and labels the
  macros build are ASCII.
\<close>

type_synonym ref = nat
type_synonym vec = "rat \<times> rat \<times> rat"

datatype placement = Placement vec "rat \<times> rat \<times> rat \<times> rat"

text \<open>Sketcher constraints, with the argument order of \<open>Sketcher.Constraint\<close>.\<close>

datatype constraint =
    Coincident nat nat nat nat
  | Horizontal nat
  | Vertical nat
  | DistanceX nat nat nat nat int
  | DistanceY nat nat nat nat int

text \<open>
  A document object with the properties the macros read or write. \<open>LinkedObject\<close> is a
  list: the source accepts a single object, a tuple or \<open>None\<close> and skips \<open>None\<close>
  entries. \<open>HasSolids\<close> stands for \<open>obj.Shape and obj.Shape.Solids\<close>; \<open>Visibility\<close>,
  \<open>ShapeColor\<close> and \<open>Transparency\<close> are the properties of the object's view object.
\<close>

record obj =
  Name :: string
  Label :: string
  TypeId :: string
  Group :: "ref list"
  OutList :: "ref list"
  LinkedObject :: "ref list"
  HasSolids :: bool
  Visibility :: bool
  Geometry :: "(vec \<times> vec) list"
  Constraints :: "constraint list"
  MapMode :: string
  AttachmentSupport :: "(ref \<times> string) list"
  AttachmentOffset :: placement
  Profile :: "ref option"
  Length :: int
  Reversed :: bool
  ShapeColor :: "rat \<times> rat \<times> rat"
  Transparency :: nat
  Base :: "ref option"
  Tool :: "ref option"

text \<open>What the macros report: console output and modal error dialogs, in order.\<close>

datatype report =
    PrintMessage string
  | PrintWarning string
  | PrintError string
  | MessageBoxCritical string string

fun is_error :: "report \<Rightarrow> bool" where
  "is_error (PrintError m) = True"
| "is_error (MessageBoxCritical t m) = True"
| "is_error r = False"

fun is_warning :: "report \<Rightarrow> bool" where
  "is_warning (PrintWarning m) = True"
| "is_warning r = False"

text \<open>
  The state the macros run in. \<open>doc_open\<close> tells whether \<open>FreeCAD.ActiveDocument\<close>
  is a document (\<open>False\<close> stands for \<open>None\<close>); \<open>Objects\<close> and \<open>ActiveObject\<close> are
  those of the active document, \<open>selection\<close> is the GUI selection.
\<close>

record world =
  doc_open :: bool
  Objects :: "obj list"
  ActiveObject :: "ref option"
  selection :: "ref list"
  reports :: "report list"

text \<open>The task panel: the attributes of \<open>Create_Cutviews\<close> that the handlers read.
  \<open>letter_combo\<close> is \<open>letter_combo.currentText()\<close>, \<open>cube_size\<close> the value of the
  property of that name.\<close>

record panel =
  selected_plane :: "ref option"
  selected_body :: "ref option"
  selected_letter :: "string option"
  letter_combo :: string
  cube_size :: int

text \<open>The exceptions that escape a handler: reading \<open>doc.Objects\<close> without a document,
  and a traversal deeper than Python allows.\<close>

datatype error = AttributeError | RecursionError

subsection \<open>Strings\<close>

definition is_digit :: "char \<Rightarrow> bool" where
  "is_digit c = (c \<in> set ''0123456789'')"

definition is_upper :: "char \<Rightarrow> bool" where
  "is_upper c = (c \<in> set ''ABCDEFGHIJKLMNOPQRSTUVWXYZ'')"

definition is_lower :: "char \<Rightarrow> bool" where
  "is_lower c = (c \<in> set ''abcdefghijklmnopqrstuvwxyz'')"

text \<open>\<open>str.isspace\<close> on the code points below 256.\<close>

definition is_space :: "char \<Rightarrow> bool" where
  "is_space c = (c \<in> set [CHR 0x09, CHR 0x0A, CHR 0x0B, CHR 0x0C, CHR 0x0D,
     CHR 0x1C, CHR 0x1D, CHR 0x1E, CHR 0x1F, CHR 0x20, CHR 0x85, CHR 0xA0])"

text \<open>\<open>str.strip()\<close>.\<close>

definition strip :: "string \<Rightarrow> string" where
  "strip s = rev (dropWhile is_space (rev (dropWhile is_space s)))"

text \<open>The decimal digits of a number, and the format \<open>{n:03d}\<close>.\<close>

definition digit_char :: "nat \<Rightarrow> char" where
  "digit_char d = ''0123456789'' ! d"

fun digits :: "nat \<Rightarrow> string" where
  "digits n = (if n < 10 then [digit_char n] else digits (n div 10) @ [digit_char (n mod 10)])"

declare digits.simps [simp del]

definition pad3 :: "nat \<Rightarrow> string" where
  "pad3 n = replicate (3 - length (digits n)) CHR ''0'' @ digits n"

text \<open>\<open>str.replace(old, new)\<close> for a non-empty \<open>old\<close>: every occurrence, left to right.\<close>

fun replace_all :: "string \<Rightarrow> string \<Rightarrow> string \<Rightarrow> string" where
  "replace_all old new [] = []"
| "replace_all old new (c # cs) =
     (if old \<noteq> [] \<and> take (length old) (c # cs) = old
      then new @ replace_all old new (drop (length old) (c # cs))
      else c # replace_all old new cs)"

subsection \<open>Host operations\<close>

text \<open>
  The host's operations are not part of the repository. They are modelled as follows,
  and as always succeeding.

  \<^item> \<open>doc.addObject(type, name)\<close> appends a fresh object whose \<open>Name\<close> is the requested
    name made into an identifier and made unique in the document, whose \<open>Label\<close> is that
    \<open>Name\<close>, and makes it the active object. Auxiliary objects the host creates on its
    own (the origin of a body) are left out.
  \<^item> Assigning \<open>obj.Label\<close> stores the string.
  \<^item> \<open>group.addObject(o)\<close> appends \<open>o\<close> to \<open>group.Group\<close> unless it is a member.
  \<^item> \<open>doc.recompute()\<close>, \<open>commitTransaction\<close> and \<open>abortTransaction\<close> change
    nothing that is modelled.
\<close>

definition ident_char :: "char \<Rightarrow> bool" where
  "ident_char c = (is_upper c \<or> is_lower c \<or> is_digit c \<or> c = CHR ''_'')"

definition getIdentifier :: "string \<Rightarrow> string" where
  "getIdentifier s =
     (case s of [] \<Rightarrow> ''_''
      | c # cs \<Rightarrow>
          (let t = map (\<lambda>x. if ident_char x then x else CHR ''_'') s
           in if is_digit c then CHR ''_'' # t else t))"

definition unique_name :: "string list \<Rightarrow> string \<Rightarrow> string" where
  "unique_name used base =
     (if base \<notin> set used then base
      else (case find (\<lambda>k. base @ pad3 k \<notin> set used) [1 ..< length used + 2] of
              Some k \<Rightarrow> base @ pad3 k
            | None \<Rightarrow> base @ pad3 (length used + 2)))"

definition new_object :: "string \<Rightarrow> string \<Rightarrow> obj" where
  "new_object t n =
     \<lparr>Name = n, Label = n, TypeId = t, Group = [], OutList = [], LinkedObject = [],
      HasSolids = False, Visibility = True, Geometry = [], Constraints = [],
      MapMode = ''Deactivated'', AttachmentSupport = [],
      AttachmentOffset = Placement (0, 0, 0) (0, 0, 0, 1), Profile = None, Length = 10,
      Reversed = False, ShapeColor = (4 / 5, 4 / 5, 4 / 5), Transparency = 0,
      Base = None, Tool = None\<rparr>"

text \<open>Reading through a reference. Python references cannot dangle; a position outside
  the document reads as an object without a type tag.\<close>

definition obj_at :: "obj list \<Rightarrow> ref \<Rightarrow> obj" where
  "obj_at objs r = (if r < length objs then objs ! r else new_object [] [])"

definition upd_obj :: "ref \<Rightarrow> (obj \<Rightarrow> obj) \<Rightarrow> world \<Rightarrow> world" where
  "upd_obj r f w = w\<lparr>Objects := (Objects w)[r := f (obj_at (Objects w) r)]\<rparr>"

definition doc_addObject :: "string \<Rightarrow> string \<Rightarrow> world \<Rightarrow> ref \<times> world" where
  "doc_addObject t name w =
     (let n = length (Objects w);
          nm = unique_name (map Name (Objects w)) (getIdentifier name)
      in (n, w\<lparr>Objects := Objects w @ [new_object t nm], ActiveObject := Some n\<rparr>))"

definition add_member :: "ref \<Rightarrow> obj \<Rightarrow> obj" where
  "add_member r ob =
     (if r \<in> set (Group ob) then ob
      else ob\<lparr>Group := Group ob @ [r], OutList := OutList ob @ [r]\<rparr>)"

definition group_addObject :: "ref \<Rightarrow> ref \<Rightarrow> world \<Rightarrow> world" where
  "group_addObject g r w = upd_obj g (add_member r) w"

definition report :: "report \<Rightarrow> world \<Rightarrow> world" where
  "report m w = w\<lparr>reports := reports w @ [m]\<rparr>"

text \<open>The first object of \<open>doc.Objects\<close> that satisfies a test (a \<open>for\<close> loop with
  \<open>break\<close>), and the first member of a reference list that does.\<close>

definition find_object :: "(obj \<Rightarrow> bool) \<Rightarrow> obj list \<Rightarrow> ref option" where
  "find_object P objs = find (\<lambda>i. P (objs ! i)) [0 ..< length objs]"

definition find_member :: "(obj \<Rightarrow> bool) \<Rightarrow> obj list \<Rightarrow> ref list \<Rightarrow> ref option" where
  "find_member P objs rs = find (\<lambda>i. P (obj_at objs i)) rs"

section \<open>The state classifier (A010, \<open>group_state\<close>)\<close>

datatype gstate = no_group | empty | only_links | has_cuts | other

definition is_group_named :: "string \<Rightarrow> obj \<Rightarrow> bool" where
  "is_group_named n ob = (TypeId ob = ''App::DocumentObjectGroup'' \<and> Name ob = n)"

definition group_state :: "world \<Rightarrow> string \<Rightarrow> error + gstate" where
  "group_state w letter =
     (if \<not> doc_open w then Inl AttributeError
      else
        (let group_name = ''Cut_'' @ letter in
         case find_object (is_group_named group_name) (Objects w) of
           None \<Rightarrow> Inr no_group
         | Some g \<Rightarrow>
             (let members = map (obj_at (Objects w)) (Group (Objects w ! g)) in
              if members = [] then Inr empty
              else
                (let has_cuts_flag = list_ex (\<lambda>m. TypeId m = ''Part::Cut'') members;
                     only_links_flag = list_all (\<lambda>m. TypeId m = ''App::Link'') members
                 in if has_cuts_flag then Inr has_cuts
                    else if only_links_flag then Inr only_links
                    else Inr other))))"

section \<open>The group-structure builder (A020)\<close>

definition is_group_labelled :: "string \<Rightarrow> obj \<Rightarrow> bool" where
  "is_group_labelled l ob = (TypeId ob = ''App::DocumentObjectGroup'' \<and> Label ob = l)"

definition set_Label :: "ref \<Rightarrow> string \<Rightarrow> world \<Rightarrow> world" where
  "set_Label r l w = upd_obj r (\<lambda>ob. ob\<lparr>Label := l\<rparr>) w"

text \<open>The \<open>for ... else\<close> loop that finds the root container by its label or creates it.\<close>

definition ensure_root :: "world \<Rightarrow> ref \<times> world" where
  "ensure_root w =
     (let group_label = ''All_Cutviews----------------'' in
      case find_object (is_group_labelled group_label) (Objects w) of
        Some r \<Rightarrow> (r, w)
      | None \<Rightarrow>
          (let (r, w1) = doc_addObject ''App::DocumentObjectGroup'' ''All_Cutviews'' w;
               w2 = set_Label r group_label w1;
               w3 = report (PrintMessage ''All_Cutviews group has been created!\<newline>'') w2
           in (r, w3)))"

definition invalid_letter_msg :: "string \<Rightarrow> report" where
  "invalid_letter_msg v =
     PrintError (''No valid cutview letter selected! (Value: '' @ v @ '')\<newline>'')"

definition A020_create_group_structure :: "panel \<Rightarrow> world \<Rightarrow> world" where
  "A020_create_group_structure p w =
     (if \<not> doc_open w then report (MessageBoxCritical ''Error'' ''No active document found!'') w
      else
        (let (all_cutviews_group, w1) = ensure_root w in
         case map_option strip (selected_letter p) of
           None \<Rightarrow> report (invalid_letter_msg ''None'') w1
         | Some cut_letter \<Rightarrow>
             if length cut_letter \<noteq> 1 then report (invalid_letter_msg cut_letter) w1
             else
               (let cut_group_label = ''Cut_'' @ cut_letter in
                case find_member (is_group_labelled cut_group_label) (Objects w1)
                       (Group (obj_at (Objects w1) all_cutviews_group)) of
                  Some g \<Rightarrow> report (PrintMessage (cut_group_label @ '' already exists!\<newline>'')) w1
                | None \<Rightarrow>
                    (let (cut_group, w2) = doc_addObject ''App::DocumentObjectGroup'' cut_group_label w1;
                         w3 = set_Label cut_group cut_group_label w2;
                         w4 = group_addObject all_cutviews_group cut_group w3
                     in report (PrintMessage (cut_group_label @ '' has been created!\<newline>'')) w4))))"

section \<open>The link generator (A030)\<close>

text \<open>
  \<open>collect\<close> recurses through \<open>OutList\<close>. Its first argument is the recursion depth
  Python allows; a traversal that needs more raises \<open>RecursionError\<close>. The result is the
  list \<open>solids\<close> in the order of the appends.
\<close>

fun collect_all :: "(ref \<Rightarrow> error + ref list) \<Rightarrow> ref list \<Rightarrow> error + ref list" where
  "collect_all f [] = Inr []"
| "collect_all f (c # cs) =
     (case f c of
        Inl e \<Rightarrow> Inl e
      | Inr xs \<Rightarrow> (case collect_all f cs of Inl e \<Rightarrow> Inl e | Inr ys \<Rightarrow> Inr (xs @ ys)))"

definition is_body_type :: "string \<Rightarrow> bool" where
  "is_body_type t = (t \<in> set [''PartDesign::Body'', ''Part::Body''])"

fun collect :: "nat \<Rightarrow> obj list \<Rightarrow> ref \<Rightarrow> error + ref list" where
  "collect 0 objs r = Inl RecursionError"
| "collect (Suc n) objs r =
     (let ob = obj_at objs r; t = TypeId ob in
      if t \<in> set [''Assembly::Assembly'', ''Assembly::AssemblyObject'', ''App::Part'']
      then collect_all (collect n objs) (OutList ob)
      else if t \<in> set [''PartDesign::Body'', ''Part::Body'', ''Part::Feature'']
      then (if t \<noteq> ''Part::Feature'' \<or> HasSolids ob then Inr [r] else Inr [])
      else if t \<in> set [''App::Link'', ''App::LinkSub'']
      then (if list_ex (\<lambda>l. is_body_type (TypeId (obj_at objs l))) (LinkedObject ob)
            then Inr [r] else Inr [])
      else Inr [])"

text \<open>
  Host commands. \<open>Std_LinkMake\<close> and \<open>Std_LinkMakeRelative\<close> create, for each selected
  object, one \<open>App::Link\<close> named \<open>Link\<close> that points at it; \<open>Part_Cut\<close> creates one
  \<open>Part::Cut\<close> named \<open>Cut\<close> from exactly two selected objects and does nothing
  otherwise. The object created last is the active object. What the host does besides
  (the label it gives a link, which the macro overwrites, and where it shows the result
  in the tree) is not modelled.
\<close>

definition make_link :: "ref \<Rightarrow> world \<Rightarrow> world" where
  "make_link target w =
     (let (n, w1) = doc_addObject ''App::Link'' ''Link'' w
      in upd_obj n (\<lambda>ob. ob\<lparr>LinkedObject := [target], OutList := [target]\<rparr>) w1)"

definition Std_LinkMake :: "world \<Rightarrow> world" where
  "Std_LinkMake w = fold make_link (selection w) w"

definition Std_LinkMakeRelative :: "world \<Rightarrow> world" where
  "Std_LinkMakeRelative w = fold make_link (selection w) w"

definition Part_Cut :: "world \<Rightarrow> world" where
  "Part_Cut w =
     (case selection w of
        [a, b] \<Rightarrow>
          (let (n, w1) = doc_addObject ''Part::Cut'' ''Cut'' w
           in upd_obj n (\<lambda>ob. ob\<lparr>Base := Some a, Tool := Some b, OutList := [a, b]\<rparr>) w1)
      | _ \<Rightarrow> w)"

definition clearSelection :: "world \<Rightarrow> world" where
  "clearSelection w = w\<lparr>selection := []\<rparr>"

definition addSelection :: "ref \<Rightarrow> world \<Rightarrow> world" where
  "addSelection r w = w\<lparr>selection := selection w @ [r]\<rparr>"

definition sub_link_label :: "string \<Rightarrow> nat \<Rightarrow> string \<Rightarrow> string" where
  "sub_link_label letter idx src = letter @ pad3 (idx + 1) @ ''_Link_'' @ src"

text \<open>One pass of the loop over \<open>enumerate(solids)\<close>.\<close>

definition link_step :: "string \<Rightarrow> ref \<Rightarrow> nat \<Rightarrow> ref \<Rightarrow> world \<Rightarrow> world" where
  "link_step letter grp idx ob w =
     (let w1 = addSelection ob (clearSelection w);
          w2 = (if is_body_type (TypeId (obj_at (Objects w1) ob))
                then upd_obj ob (\<lambda>x. x\<lparr>Visibility := False\<rparr>) (Std_LinkMake w1)
                else Std_LinkMakeRelative w1)
      in case ActiveObject w2 of
           None \<Rightarrow> w2
         | Some sub_link \<Rightarrow>
             if TypeId (obj_at (Objects w2) sub_link) = ''App::Link''
             then group_addObject grp sub_link
                    (set_Label sub_link (sub_link_label letter idx (Label (obj_at (Objects w2) ob))) w2)
             else w2)"

fun link_loop :: "string \<Rightarrow> ref \<Rightarrow> nat \<Rightarrow> ref list \<Rightarrow> world \<Rightarrow> world" where
  "link_loop letter grp idx [] w = w"
| "link_loop letter grp idx (ob # obs) w =
     link_loop letter grp (idx + 1) obs (link_step letter grp idx ob w)"

definition links_letter :: "panel \<Rightarrow> string" where
  "links_letter p =
     (case selected_letter p of
        None \<Rightarrow> letter_combo p
      | Some l \<Rightarrow> if length (strip l) = 1 then strip l else letter_combo p)"

text \<open>The find-or-create of the per-letter group, by \<open>Name\<close>.\<close>

definition find_or_create_group :: "string \<Rightarrow> world \<Rightarrow> ref \<times> world" where
  "find_or_create_group group_name w =
     (case find_object (is_group_named group_name) (Objects w) of
        Some g \<Rightarrow> (g, w)
      | None \<Rightarrow>
          (let (g, w1) = doc_addObject ''App::DocumentObjectGroup'' group_name w
           in (g, set_Label g group_name w1)))"

definition A030_create_links :: "nat \<Rightarrow> panel \<Rightarrow> world \<Rightarrow> error + world" where
  "A030_create_links limit p w =
     (if \<not> doc_open w then Inr (report (MessageBoxCritical ''Error'' ''No active document found!'') w)
      else
        case selected_body p of
          None \<Rightarrow> Inr (report (MessageBoxCritical ''Error'' ''Please select a body.'') w)
        | Some body \<Rightarrow>
            (let letter = links_letter p;
                 (grp, w1) = find_or_create_group (''Cut_'' @ letter) w
             in case collect limit (Objects w1) body of
                  Inl e \<Rightarrow> Inl e
                | Inr solids \<Rightarrow>
                    if solids = []
                    then Inr (report (MessageBoxCritical ''Error''
                                ''No solids found in the selected body or assembly.'') w1)
                    else Inr (link_loop letter grp 0 solids w1)))"

section \<open>The cube generator (A040)\<close>

definition sketch_addGeometry :: "ref \<Rightarrow> vec \<times> vec \<Rightarrow> world \<Rightarrow> nat \<times> world" where
  "sketch_addGeometry sk seg w =
     (length (Geometry (obj_at (Objects w) sk)),
      upd_obj sk (\<lambda>ob. ob\<lparr>Geometry := Geometry ob @ [seg]\<rparr>) w)"

definition sketch_addConstraint :: "ref \<Rightarrow> constraint \<Rightarrow> world \<Rightarrow> world" where
  "sketch_addConstraint sk c w = upd_obj sk (\<lambda>ob. ob\<lparr>Constraints := Constraints ob @ [c]\<rparr>) w"

text \<open>The list comprehension \<open>lines\<close>: the geometry indices \<open>addGeometry\<close> returns.\<close>

fun add_lines :: "ref \<Rightarrow> (vec \<times> vec) list \<Rightarrow> world \<Rightarrow> nat list \<times> world" where
  "add_lines sk [] w = ([], w)"
| "add_lines sk (seg # segs) w =
     (let (i, w1) = sketch_addGeometry sk seg w;
          (is, w2) = add_lines sk segs w1
      in (i # is, w2))"

definition body_newObject :: "ref \<Rightarrow> string \<Rightarrow> string \<Rightarrow> world \<Rightarrow> ref \<times> world" where
  "body_newObject b t name w =
     (let (n, w1) = doc_addObject t name w in (n, group_addObject b n w1))"

text \<open>
  \<open>create_rectangle_sketch\<close>. \<open>half = size / 2\<close> is a rational here. The host
  operations are modelled as succeeding, so the \<open>except\<close> branch is never taken.
\<close>

definition create_rectangle_sketch :: "bool \<Rightarrow> ref option \<Rightarrow> string \<Rightarrow> int \<Rightarrow> world \<Rightarrow> world" where
  "create_rectangle_sketch doc plane cube_front_label rect_size w =
     (case plane of
        None \<Rightarrow> report (MessageBoxCritical ''Error'' ''No plane selected!'') w
      | Some pl \<Rightarrow>
          if \<not> doc then report (MessageBoxCritical ''Error'' ''No active document!'') w
          else
            (let (body_front, w1) = doc_addObject ''PartDesign::Body'' cube_front_label w;
                 (sketch, w2) = doc_addObject ''Sketcher::SketchObject'' ''CenteredRectangle'' w1;
                 w3 = group_addObject body_front sketch w2;
                 sz = rect_size;
                 half = (of_int sz :: rat) / 2;
                 points = [(- half, - half, 0), (half, - half, 0), (half, half, 0), (- half, half, 0)];
                 (lines, w4) = add_lines sketch
                    (map (\<lambda>i. (points ! i, points ! ((i + 1) mod 4))) [0 ..< 4]) w3;
                 constraints =
                   [Coincident (lines ! 0) 2 (lines ! 1) 1,
                    Coincident (lines ! 1) 2 (lines ! 2) 1,
                    Coincident (lines ! 2) 2 (lines ! 3) 1,
                    Coincident (lines ! 3) 2 (lines ! 0) 1,
                    Horizontal (lines ! 0),
                    Horizontal (lines ! 2),
                    Vertical (lines ! 1),
                    Vertical (lines ! 3)];
                 w5 = fold (sketch_addConstraint sketch) constraints w4;
                 w6 = sketch_addConstraint sketch (DistanceX (lines ! 0) 1 (lines ! 0) 2 sz) w5;
                 w7 = sketch_addConstraint sketch (DistanceY (lines ! 1) 1 (lines ! 1) 2 sz) w6;
                 w8 = upd_obj sketch (\<lambda>ob. ob\<lparr>MapMode := ''FlatFace'',
                        AttachmentSupport := [(pl, [])],
                        AttachmentOffset := Placement (0, 0, 0) (0, 0, 0, 1),
                        OutList := OutList ob @ [pl]\<rparr>) w7;
                 (pad, w9) = body_newObject body_front ''PartDesign::Pad'' ''Pad'' w8
             in upd_obj pad (\<lambda>ob. ob\<lparr>Profile := Some sketch, Length := sz, Reversed := False,
                  ShapeColor := (1, 1 / 2, 1 / 2), Transparency := 70,
                  OutList := OutList ob @ [sketch]\<rparr>) w9))"

definition cutcube_label :: "string \<Rightarrow> nat \<Rightarrow> string" where
  "cutcube_label letter i = letter @ pad3 (i + 1) @ ''_Cutcube''"

text \<open>One pass of the loop over \<open>range(count)\<close>: the objects that are new after
  \<open>create_rectangle_sketch\<close> are those at the positions from the old length on.\<close>

definition cube_step :: "ref option \<Rightarrow> string \<Rightarrow> int \<Rightarrow> ref \<Rightarrow> nat \<Rightarrow> world \<Rightarrow> world" where
  "cube_step plane letter sz grp i w =
     (let before_objs = length (Objects w);
          w1 = create_rectangle_sketch (doc_open w) plane (cutcube_label letter i) sz w;
          new_objs = [before_objs ..< length (Objects w1)]
      in fold (\<lambda>r v. if TypeId (obj_at (Objects v) r) = ''PartDesign::Body''
                      then group_addObject grp r v else v) new_objs w1)"

text \<open>A name in single quotes, and the \<open>repr\<close> of a list of names as the f-string
  prints it.\<close>

definition quoted :: "string \<Rightarrow> string" where
  "quoted s = [CHR 0x27] @ s @ [CHR 0x27]"

fun py_list_repr :: "string list \<Rightarrow> string" where
  "py_list_repr [] = ''[]''"
| "py_list_repr (x # xs) =
     ''['' @ foldl (\<lambda>acc y. acc @ '', '' @ quoted y) (quoted x) xs @ '']''"

definition A040_create_cubes :: "panel \<Rightarrow> world \<Rightarrow> world" where
  "A040_create_cubes p w =
     (if \<not> doc_open w then report (MessageBoxCritical ''Error'' ''No active document found!'') w
      else
        case selected_plane p of
          None \<Rightarrow> report (MessageBoxCritical ''Error'' ''Please select a plane.'') w
        | Some pl \<Rightarrow>
            (let letter = letter_combo p; sz = cube_size p in
             case find_object (is_group_named ''All_Cutviews'') (Objects w) of
               None \<Rightarrow>
                 (let group_names = map Name
                        (filter (\<lambda>ob. TypeId ob = ''App::DocumentObjectGroup'') (Objects w))
                  in report (MessageBoxCritical ''Error''
                               (''Group '' @ quoted ''All_Cutviews'' @ '' not found!''))
                       (report (PrintError (''Group '' @ quoted ''All_Cutviews''
                                  @ '' not found!\<newline>Existing groups: ''
                                  @ py_list_repr group_names @ ''\<newline>'')) w))
             | Some all_group \<Rightarrow>
                 (let group_name = ''Cut_'' @ letter in
                  case find_member (is_group_named group_name) (Objects w)
                         (Group (obj_at (Objects w) all_group)) of
                    None \<Rightarrow> report (MessageBoxCritical ''Error''
                              (''Group '' @ quoted group_name @ '' not found in ''
                                 @ quoted ''All_Cutviews'' @ ''!'')) w
                  | Some grp \<Rightarrow>
                      (let links = filter (\<lambda>r. TypeId (obj_at (Objects w) r) = ''App::Link'')
                                     (Group (obj_at (Objects w) grp));
                           count = length links
                       in if count = 0
                          then report (MessageBoxCritical ''Error''
                                 (''No links found in group '' @ quoted group_name @ ''!'')) w
                          else fold (cube_step (Some pl) letter sz grp) [0 ..< count] w))))"

section \<open>The cut executor (A050)\<close>

text \<open>\<open>re.match(r"([A-Z]\d+)_Link", label)\<close>: the captured prefix, if the label starts
  with a capital letter, one or more digits and \<open>_Link\<close>.\<close>

definition match_link_prefix :: "string \<Rightarrow> string option" where
  "match_link_prefix s =
     (case s of
        [] \<Rightarrow> None
      | c # cs \<Rightarrow>
          if is_upper c \<and> takeWhile is_digit cs \<noteq> []
             \<and> take 5 (dropWhile is_digit cs) = ''_Link''
          then Some (c # takeWhile is_digit cs)
          else None)"

text \<open>One pass of the loop over \<open>sub_links\<close>; each \<open>continue\<close> is a branch that
  returns.\<close>

definition cut_step :: "ref \<Rightarrow> world \<Rightarrow> world" where
  "cut_step sublink w =
     (let link_label = Label (obj_at (Objects w) sublink) in
      case match_link_prefix link_label of
        None \<Rightarrow> report (PrintWarning (''No valid link prefix found in '' @ link_label @ ''\<newline>'')) w
      | Some prefix \<Rightarrow>
          (let cube_label = prefix @ ''_Cutcube'' in
           case find_object (\<lambda>ob. Label ob = cube_label) (Objects w) of
             None \<Rightarrow> report (PrintWarning (''No cut cube found for '' @ link_label
                        @ '' (searched: '' @ cube_label @ '')\<newline>'')) w
           | Some cube_obj \<Rightarrow>
               (let w1 = addSelection cube_obj (addSelection sublink (clearSelection w));
                    w2 = Part_Cut w1
                in case ActiveObject w2 of
                     None \<Rightarrow> w2
                   | Some cut_obj \<Rightarrow>
                       (let cut_label = replace_all ''_Link'' ''_Cut_['' link_label @ '']''
                        in report (PrintMessage (''Created: '' @ cut_label @ ''\<newline>''))
                             (set_Label cut_obj cut_label w2)))))"

definition A050_create_cuts :: "ref list \<Rightarrow> string \<Rightarrow> nat \<Rightarrow> world \<Rightarrow> world" where
  "A050_create_cuts sub_links letter num_cubes w = fold cut_step sub_links w"

section \<open>The handlers of the task panel (A010)\<close>

text \<open>A handler returns \<open>Inl\<close> when an exception escapes it, and the state it leaves
  otherwise.\<close>

definition handle_create_group_structure :: "panel \<Rightarrow> world \<Rightarrow> error + world" where
  "handle_create_group_structure p w =
     (let letter = letter_combo p in
      case group_state w letter of
        Inl e \<Rightarrow> Inl e
      | Inr state \<Rightarrow>
          if state = has_cuts
          then Inr (report (PrintError (''Group Cut_'' @ letter
                      @ '' already contains cuts. Operation aborted.\<newline>'')) w)
          else if state = no_group \<or> state = empty
          then Inr (A020_create_group_structure p w)
          else Inr w)"

definition handle_create_links :: "nat \<Rightarrow> panel \<Rightarrow> world \<Rightarrow> error + world" where
  "handle_create_links limit p w =
     (let letter = letter_combo p in
      case group_state w letter of
        Inl e \<Rightarrow> Inl e
      | Inr state \<Rightarrow>
          if state = has_cuts
          then Inr (report (PrintError (''Group Cut_'' @ letter
                      @ '' already contains cuts. No further links will be created.\<newline>'')) w)
          else if state = only_links
          then Inr (report (PrintMessage (''Group Cut_'' @ letter
                      @ '' already contains links. No further links will be created.\<newline>'')) w)
          else if state = no_group \<or> state = empty
          then A030_create_links limit p w
          else Inr w)"

definition handle_create_cube :: "panel \<Rightarrow> world \<Rightarrow> error + world" where
  "handle_create_cube p w =
     (let letter = letter_combo p in
      case group_state w letter of
        Inl e \<Rightarrow> Inl e
      | Inr state \<Rightarrow>
          if state = has_cuts
          then Inr (report (PrintError (''Group Cut_'' @ letter
                      @ '' already contains cuts. No further cubes will be created.\<newline>'')) w)
          else if state = no_group
          then Inr (report (PrintError (''Group Cut_'' @ letter
                      @ '' does not exist. Please create links first.\<newline>'')) w)
          else Inr (A040_create_cubes p w))"

text \<open>The last lines of \<open>handle_do_cuts\<close> and of \<open>handle_do_all\<close>, which are the
  same: collect the links of the group, run the executor, hide the selected body.\<close>

definition run_cuts :: "panel \<Rightarrow> string \<Rightarrow> world \<Rightarrow> world" where
  "run_cuts p letter w =
     (let group_name = ''Cut_'' @ letter;
          sub_links =
            (case find_object (is_group_named group_name) (Objects w) of
               None \<Rightarrow> []
             | Some g \<Rightarrow> filter (\<lambda>r. TypeId (obj_at (Objects w) r) = ''App::Link'')
                           (Group (obj_at (Objects w) g)));
          num_cubes = length sub_links;
          w1 = A050_create_cuts sub_links letter num_cubes w
      in case selected_body p of
           None \<Rightarrow> w1
         | Some b \<Rightarrow> upd_obj b (\<lambda>ob. ob\<lparr>Visibility := False\<rparr>) w1)"

definition handle_do_cuts :: "panel \<Rightarrow> world \<Rightarrow> error + world" where
  "handle_do_cuts p w =
     (let letter = letter_combo p in
      case group_state w letter of
        Inl e \<Rightarrow> Inl e
      | Inr state \<Rightarrow>
          if state = has_cuts
          then Inr (report (PrintError (''Group Cut_'' @ letter
                      @ '' already contains cuts. No further cuts will be created.\<newline>'')) w)
          else if state = no_group
          then Inr (report (PrintError (''Group Cut_'' @ letter
                      @ '' does not exist. Please create links first.\<newline>'')) w)
          else Inr (run_cuts p letter w))"

definition handle_do_all :: "nat \<Rightarrow> panel \<Rightarrow> world \<Rightarrow> error + world" where
  "handle_do_all limit p w =
     (if selected_plane p = None
      then Inr (report (PrintError ''Please select a plane first.\<newline>'') w)
      else if selected_body p = None
      then Inr (report (PrintError ''Please select a body first.\<newline>'') w)
      else
        (case selected_letter p of
           None \<Rightarrow> Inr (report (PrintError
                     ''Please select and store a letter before using 'Create Cutview'.\<newline>'') w)
         | Some letter \<Rightarrow>
             if letter = [] \<or> letter = '' - ''
             then Inr (report (PrintError
                     ''Please select and store a letter before using 'Create Cutview'.\<newline>'') w)
             else
               (case group_state w letter of
                  Inl e \<Rightarrow> Inl e
                | Inr state \<Rightarrow>
                    if state = has_cuts
                    then Inr (report (PrintError (''Group Cut_'' @ letter
                                @ '' already contains cuts. Operation aborted.\<newline>'')) w)
                    else
                      (let w1 = (if state = no_group \<or> state = empty
                                 then A020_create_group_structure p w else w)
                       in (case (if state = no_group \<or> state = empty
                                 then A030_create_links limit p w1 else Inr w1) of
                             Inl e \<Rightarrow> Inl e
                           | Inr w2 \<Rightarrow> Inr (run_cuts p letter (A040_create_cubes p w2)))))))"

section \<open>Example documents\<close>

text \<open>A document with a plane and an assembly of three leaves (a body, a feature with
  a solid, and a link to the body), and a panel with letter \<open>F\<close> stored.\<close>

definition ex_world :: world where
  "ex_world =
     \<lparr>doc_open = True,
      Objects =
        [new_object ''Part::Plane'' ''XY_Plane'',
         (new_object ''App::Part'' ''Part'')\<lparr>OutList := [2, 3, 4]\<rparr>,
         new_object ''PartDesign::Body'' ''Body'',
         (new_object ''Part::Feature'' ''Box'')\<lparr>HasSolids := True\<rparr>,
         (new_object ''App::Link'' ''Link'')\<lparr>LinkedObject := [2], OutList := [2]\<rparr>],
      ActiveObject = None, selection = [], reports = []\<rparr>"

definition ex_panel :: panel where
  "ex_panel =
     \<lparr>selected_plane = Some 0, selected_body = Some 1, selected_letter = Some ''F'',
      letter_combo = ''F'', cube_size = 1000\<rparr>"

text \<open>A document whose group \<open>Cut_F\<close> holds a cut result.\<close>

definition ex_cut_world :: world where
  "ex_cut_world =
     \<lparr>doc_open = True,
      Objects =
        [new_object ''Part::Plane'' ''XY_Plane'',
         new_object ''PartDesign::Body'' ''Body'',
         (new_object ''App::DocumentObjectGroup'' ''Cut_F'')\<lparr>Group := [3], OutList := [3]\<rparr>,
         (new_object ''Part::Cut'' ''Cut'')\<lparr>Label := ''F001_Cut_[_Body]''\<rparr>],
      ActiveObject = None, selection = [], reports = []\<rparr>"

section \<open>Notions used in the statements\<close>

text \<open>References do not dangle: every member of a \<open>Group\<close> list is an object of the
  document. This always holds in the host, where a reference is a pointer.\<close>

definition wf_doc :: "world \<Rightarrow> bool" where
  "wf_doc w = list_all (\<lambda>ob. list_all (\<lambda>r. r < length (Objects w)) (Group ob)) (Objects w)"

text \<open>Two objects that differ at most in the members they hold and in whether they are
  shown.\<close>

definition same_core :: "obj \<Rightarrow> obj \<Rightarrow> bool" where
  "same_core a b =
     (Name a = Name b \<and> Label a = Label b \<and> TypeId a = TypeId b
      \<and> LinkedObject a = LinkedObject b \<and> HasSolids a = HasSolids b)"

text \<open>The value of a string of decimal digits.\<close>

definition digit_val :: "char \<Rightarrow> nat" where
  "digit_val c = of_char c - 48"

definition digits_val :: "string \<Rightarrow> nat" where
  "digits_val s = foldl (\<lambda>a c. 10 * a + digit_val c) 0 s"

text \<open>An invalid stored letter, and a document in which nothing can be linked.\<close>

definition ex_panel_no_letter :: panel where
  "ex_panel_no_letter = ex_panel\<lparr>selected_letter := None\<rparr>"

definition ex_empty_part_world :: world where
  "ex_empty_part_world =
     \<lparr>doc_open = True,
      Objects = [new_object ''Part::Plane'' ''XY_Plane'', new_object ''App::Part'' ''Part''],
      ActiveObject = None, selection = [], reports = []\<rparr>"

text \<open>A document that holds the root container and, in it, the empty group \<open>Cut_F\<close>.\<close>

definition ex_group_world :: world where
  "ex_group_world =
     \<lparr>doc_open = True,
      Objects =
        [new_object ''Part::Plane'' ''XY_Plane'',
         new_object ''PartDesign::Body'' ''Body'',
         (new_object ''App::DocumentObjectGroup'' ''All_Cutviews'')
           \<lparr>Label := ''All_Cutviews----------------'', Group := [3], OutList := [3]\<rparr>,
         new_object ''App::DocumentObjectGroup'' ''Cut_F''],
      ActiveObject = Some 3, selection = [], reports = []\<rparr>"

text \<open>The object a link command creates for a target, before the macro labels it.\<close>

definition link_object :: "string list \<Rightarrow> ref \<Rightarrow> obj" where
  "link_object names t =
     (new_object ''App::Link'' (unique_name names ''Link''))\<lparr>LinkedObject := [t], OutList := [t]\<rparr>"

text \<open>The objects of the document after one pass of the link loop for a source object,
  before the new link is added to the group.\<close>

definition linked :: "string \<Rightarrow> nat \<Rightarrow> ref \<Rightarrow> world \<Rightarrow> obj list" where
  "linked letter idx ob w =
     (if is_body_type (TypeId (Objects w ! ob))
      then (Objects w)[ob := (Objects w ! ob)\<lparr>Visibility := False\<rparr>] else Objects w)
     @ [(link_object (map Name (Objects w)) ob)
          \<lparr>Label := sub_link_label letter idx (Label (Objects w ! ob))\<rparr>]"

text \<open>The same, with an empty group \<open>Cut_F\<close> already in the document.\<close>

definition ex_empty_part_group_world :: world where
  "ex_empty_part_group_world =
     \<lparr>doc_open = True,
      Objects = [new_object ''Part::Plane'' ''XY_Plane'', new_object ''App::Part'' ''Part'',
                 new_object ''App::DocumentObjectGroup'' ''Cut_F''],
      ActiveObject = None, selection = [], reports = []\<rparr>"

text \<open>The cube the executor pairs a proxy with: the first object labelled
  \<open><prefix>_Cutcube\<close>, where \<open><prefix>\<close> is what the pattern captures in the proxy's
  label. A proxy is skipped when its label does not match the pattern or no object
  carries that label.\<close>

definition cube_for :: "obj list \<Rightarrow> ref \<Rightarrow> ref option" where
  "cube_for objs sublink =
     (case match_link_prefix (Label (obj_at objs sublink)) of
        None \<Rightarrow> None
      | Some prefix \<Rightarrow> find_object (\<lambda>ob. Label ob = prefix @ ''_Cutcube'') objs)"

definition skipped :: "obj list \<Rightarrow> ref \<Rightarrow> bool" where
  "skipped objs sublink =
     (case match_link_prefix (Label (obj_at objs sublink)) of
        None \<Rightarrow> True
      | Some prefix \<Rightarrow> \<not> list_ex (\<lambda>ob. Label ob = prefix @ ''_Cutcube'') objs)"

text \<open>A document with three proxies and one cube: the first proxy has its cube, the
  second has none, the label of the third does not match the pattern.\<close>

definition ex_cuts_world :: world where
  "ex_cuts_world =
     \<lparr>doc_open = True,
      Objects =
        [(new_object ''App::Link'' ''Link'')\<lparr>Label := ''F001_Link_Body''\<rparr>,
         (new_object ''App::Link'' ''Link001'')\<lparr>Label := ''F002_Link_Box''\<rparr>,
         (new_object ''App::Link'' ''Link002'')\<lparr>Label := ''Box_Link''\<rparr>,
         new_object ''PartDesign::Body'' ''F001_Cutcube''],
      ActiveObject = None, selection = [], reports = []\<rparr>"

text \<open>The per-letter containers of a letter, as the builder finds them: the members of
  the root container that are groups labelled \<open>Cut_<letter>\<close>.\<close>

definition letter_containers :: "string \<Rightarrow> world \<Rightarrow> ref list" where
  "letter_containers L w =
     (case find_object (is_group_labelled ''All_Cutviews----------------'') (Objects w) of
        None \<Rightarrow> []
      | Some rt \<Rightarrow>
          filter (\<lambda>r. is_group_labelled (''Cut_'' @ L) (obj_at (Objects w) r))
            (Group (Objects w ! rt)))"

text \<open>A document after a full run for \<open>F\<close>: the root container holds \<open>Cut_F\<close>, which
  holds a proxy and a cut result. And two panels whose stored letter and combo letter
  differ.\<close>

definition ex_cut_root_world :: world where
  "ex_cut_root_world =
     \<lparr>doc_open = True,
      Objects =
        [new_object ''Part::Plane'' ''XY_Plane'',
         new_object ''PartDesign::Body'' ''Body'',
         (new_object ''App::DocumentObjectGroup'' ''All_Cutviews'')
           \<lparr>Label := ''All_Cutviews----------------'', Group := [3], OutList := [3]\<rparr>,
         (new_object ''App::DocumentObjectGroup'' ''Cut_F'')\<lparr>Group := [4, 5], OutList := [4, 5]\<rparr>,
         (new_object ''App::Link'' ''Link'')
           \<lparr>Label := ''F001_Link_Body'', LinkedObject := [1], OutList := [1]\<rparr>,
         (new_object ''Part::Cut'' ''Cut'')\<lparr>Label := ''F001_Cut_[_Body]''\<rparr>],
      ActiveObject = None, selection = [], reports = []\<rparr>"

definition ex_panel_stored_G :: panel where
  "ex_panel_stored_G = ex_panel\<lparr>selected_letter := Some ''G'', letter_combo := ''F''\<rparr>"

definition ex_panel_combo_G :: panel where
  "ex_panel_combo_G = ex_panel\<lparr>selected_letter := Some ''F'', letter_combo := ''G''\<rparr>"

section \<open>Digits and names\<close>

subsection \<open>Digits\<close>

lemma digit_char_val: "d < 10 \<Longrightarrow> digit_val (digit_char d) = d"
proof -
  assume "d < 10"
  then have "d \<in> {0,1,2,3,4,5,6,7,8,9}" by auto
  then show ?thesis
    by (auto simp: digit_val_def digit_char_def)
qed

lemma digit_char_is_digit: "d < 10 \<Longrightarrow> is_digit (digit_char d)"
proof -
  assume "d < 10"
  then have "d \<in> {0,1,2,3,4,5,6,7,8,9}" by auto
  then show ?thesis
    by (auto simp: is_digit_def digit_char_def)
qed

lemma digits_val_snoc: "digits_val (s @ [c]) = 10 * digits_val s + digit_val c"
  by (simp add: digits_val_def)

lemma digits_val_digits: "digits_val (digits n) = n"
proof (induction n rule: digits.induct)
  case (1 n)
  show ?case
  proof (cases "n < 10")
    case True
    then show ?thesis
      by (subst digits.simps) (simp add: digits_val_def digit_char_val)
  next
    case False
    with 1 have "digits_val (digits (n div 10)) = n div 10" by simp
    with False show ?thesis
      by (subst digits.simps) (simp add: digits_val_snoc digit_char_val)
  qed
qed

lemma digits_val_zeros: "digits_val (replicate k CHR ''0'' @ s) = digits_val s"
proof (induction k)
  case 0
  then show ?case by simp
next
  case (Suc k)
  have "digits_val (CHR ''0'' # t) = digits_val t" for t
  proof (induction t rule: rev_induct)
    case Nil
    then show ?case by (simp add: digits_val_def digit_val_def)
  next
    case (snoc x xs)
    have "digits_val (CHR ''0'' # xs @ [x]) = digits_val ((CHR ''0'' # xs) @ [x])" by simp
    also have "\<dots> = 10 * digits_val (CHR ''0'' # xs) + digit_val x"
      by (rule digits_val_snoc)
    finally show ?case using snoc by (simp add: digits_val_snoc)
  qed
  with Suc show ?case by simp
qed

lemma digits_val_pad3: "digits_val (pad3 n) = n"
  by (simp add: pad3_def digits_val_zeros digits_val_digits)

lemma pad3_inj: "pad3 m = pad3 n \<Longrightarrow> m = n"
  by (metis digits_val_pad3)

lemma digits_all_digit: "list_all is_digit (digits n)"
proof (induction n rule: digits.induct)
  case (1 n)
  show ?case
  proof (cases "n < 10")
    case True
    then show ?thesis by (subst digits.simps) (simp add: digit_char_is_digit)
  next
    case False
    with 1 show ?thesis by (subst digits.simps) (simp add: digit_char_is_digit)
  qed
qed

lemma digits_nonempty: "digits n \<noteq> []"
  by (subst digits.simps) simp

lemma pad3_all_digit: "list_all is_digit (pad3 n)"
proof -
  have a: "is_digit CHR ''0''" by (simp add: is_digit_def)
  have b: "\<forall>x \<in> set (digits n). is_digit x"
    using digits_all_digit [of n] by (simp add: list_all_iff)
  show ?thesis
    using a b by (auto simp: pad3_def list_all_iff)
qed

lemma pad3_length: "3 \<le> length (pad3 n)"
  by (simp add: pad3_def)

lemma pad3_nonempty: "pad3 n \<noteq> []"
  using pad3_length [of n] by auto

subsection \<open>Unique names\<close>

lemma unique_name_free: "base \<notin> set used \<Longrightarrow> unique_name used base = base"
  by (simp add: unique_name_def)


lemma unique_name_fresh: "unique_name used base \<notin> set used"
proof (cases "base \<in> set used")
  case False
  then show ?thesis by (simp add: unique_name_def)
next
  case True
  let ?ks = "[1 ..< length used + 2]"
  let ?f = "\<lambda>k. base @ pad3 k"
  have "\<exists>k \<in> set ?ks. ?f k \<notin> set used"
  proof (rule ccontr)
    assume "\<not> ?thesis"
    then have sub: "?f ` set ?ks \<subseteq> set used" by auto
    have "inj_on ?f (set ?ks)"
      by (auto simp: inj_on_def dest: pad3_inj)
    then have "card (?f ` set ?ks) = card (set ?ks)"
      by (rule card_image)
    also have "\<dots> = length ?ks" by (rule distinct_card) simp
    also have "\<dots> = length used + 1" by (simp del: upt_Suc)
    finally have c: "card (?f ` set ?ks) = length used + 1" .
    have "card (?f ` set ?ks) \<le> card (set used)"
      using sub by (intro card_mono) simp_all
    moreover have "card (set used) \<le> length used" by (rule card_length)
    ultimately show False using c by linarith
  qed
  then obtain k where "find (\<lambda>k. ?f k \<notin> set used) ?ks = Some k"
    by (cases "find (\<lambda>k. ?f k \<notin> set used) ?ks") (auto simp: find_None_iff)
  moreover from this have "?f k \<notin> set used"
    by (auto simp: find_Some_iff)
  ultimately show ?thesis using True
    by (simp add: unique_name_def)
qed

section \<open>Basic facts about the host operations\<close>

lemma report_simps [simp]:
  "Objects (report m w) = Objects w"
  "doc_open (report m w) = doc_open w"
  "ActiveObject (report m w) = ActiveObject w"
  "selection (report m w) = selection w"
  "reports (report m w) = reports w @ [m]"
  by (simp_all add: report_def)

lemma upd_obj_simps [simp]:
  "length (Objects (upd_obj r f w)) = length (Objects w)"
  "doc_open (upd_obj r f w) = doc_open w"
  "ActiveObject (upd_obj r f w) = ActiveObject w"
  "selection (upd_obj r f w) = selection w"
  "reports (upd_obj r f w) = reports w"
  by (simp_all add: upd_obj_def)

lemma find_object_None: "find_object P objs = None \<longleftrightarrow> (\<forall>ob \<in> set objs. \<not> P ob)"
  by (auto simp: find_object_def find_None_iff in_set_conv_nth Ball_def)

lemma find_object_Some:
  "find_object P objs = Some g \<longleftrightarrow> g < length objs \<and> P (objs ! g) \<and> (\<forall>j < g. \<not> P (objs ! j))"
  by (auto simp: find_object_def find_Some_iff)

lemma find_object_first:
  assumes "g < length objs" "P (objs ! g)" "\<forall>ob \<in> set (take g objs). \<not> P ob"
  shows "find_object P objs = Some g"
proof -
  have "\<not> P (objs ! j)" if "j < g" for j
  proof -
    from that assms(1) have "objs ! j \<in> set (take g objs)"
      by (auto simp: in_set_conv_nth intro!: exI[of _ j])
    with assms(3) show ?thesis by blast
  qed
  with assms(1,2) show ?thesis
    by (simp add: find_object_Some)
qed


section \<open>The classifier\<close>

text \<open>
  Claim C2. With a document open, the classifier returns one of the five states by this
  rule: \<open>no_group\<close> if no object is a group named \<open>Cut_<letter>\<close>; otherwise, for the
  first such group, \<open>empty\<close> if its member list is empty, \<open>has_cuts\<close> if some member is
  a \<open>Part::Cut\<close> whatever the other members are, \<open>only_links\<close> if there are members,
  none is a cut and all are \<open>App::Link\<close>, and \<open>other\<close> for any other mixture.
\<close>

theorem group_state_rule:
  assumes "doc_open w"
  shows "((\<forall>ob \<in> set (Objects w). \<not> is_group_named (''Cut_'' @ L) ob)
            \<longrightarrow> group_state w L = Inr no_group)
       \<and> (\<forall>g. g < length (Objects w) \<and> is_group_named (''Cut_'' @ L) (Objects w ! g)
               \<and> (\<forall>ob \<in> set (take g (Objects w)). \<not> is_group_named (''Cut_'' @ L) ob) \<longrightarrow>
             (let members = Group (Objects w ! g) in
                (members = [] \<longrightarrow> group_state w L = Inr empty)
              \<and> ((\<exists>m \<in> set members. TypeId (obj_at (Objects w) m) = ''Part::Cut'')
                    \<longrightarrow> group_state w L = Inr has_cuts)
              \<and> (members \<noteq> []
                    \<and> (\<forall>m \<in> set members. TypeId (obj_at (Objects w) m) \<noteq> ''Part::Cut'')
                    \<and> (\<forall>m \<in> set members. TypeId (obj_at (Objects w) m) = ''App::Link'')
                    \<longrightarrow> group_state w L = Inr only_links)
              \<and> (members \<noteq> []
                    \<and> (\<forall>m \<in> set members. TypeId (obj_at (Objects w) m) \<noteq> ''Part::Cut'')
                    \<and> (\<exists>m \<in> set members. TypeId (obj_at (Objects w) m) \<noteq> ''App::Link'')
                    \<longrightarrow> group_state w L = Inr other)))"
proof (intro conjI allI impI)
  assume "\<forall>ob \<in> set (Objects w). \<not> is_group_named (''Cut_'' @ L) ob"
  then have "find_object (is_group_named (''Cut_'' @ L)) (Objects w) = None"
    by (simp add: find_object_None)
  with assms show "group_state w L = Inr no_group"
    by (simp add: group_state_def)
next
  fix g
  assume g: "g < length (Objects w) \<and> is_group_named (''Cut_'' @ L) (Objects w ! g)
               \<and> (\<forall>ob \<in> set (take g (Objects w)). \<not> is_group_named (''Cut_'' @ L) ob)"
  then have f: "find_object (is_group_named (''Cut_'' @ L)) (Objects w) = Some g"
    by (simp add: find_object_first)
  show "let members = Group (Objects w ! g) in
                (members = [] \<longrightarrow> group_state w L = Inr empty)
              \<and> ((\<exists>m \<in> set members. TypeId (obj_at (Objects w) m) = ''Part::Cut'')
                    \<longrightarrow> group_state w L = Inr has_cuts)
              \<and> (members \<noteq> []
                    \<and> (\<forall>m \<in> set members. TypeId (obj_at (Objects w) m) \<noteq> ''Part::Cut'')
                    \<and> (\<forall>m \<in> set members. TypeId (obj_at (Objects w) m) = ''App::Link'')
                    \<longrightarrow> group_state w L = Inr only_links)
              \<and> (members \<noteq> []
                    \<and> (\<forall>m \<in> set members. TypeId (obj_at (Objects w) m) \<noteq> ''Part::Cut'')
                    \<and> (\<exists>m \<in> set members. TypeId (obj_at (Objects w) m) \<noteq> ''App::Link'')
                    \<longrightarrow> group_state w L = Inr other)"
    using assms f
    by (auto simp: group_state_def Let_def list_ex_iff list_all_iff)
qed

theorem group_state_rule_witness:
  "doc_open ex_cut_world
   \<and> is_group_named ''Cut_F'' (Objects ex_cut_world ! 2)
   \<and> \<not> (\<exists>ob \<in> set (take 2 (Objects ex_cut_world)). is_group_named ''Cut_F'' ob)
   \<and> (\<exists>m \<in> set (Group (Objects ex_cut_world ! 2)).
          TypeId (obj_at (Objects ex_cut_world) m) = ''Part::Cut'')
   \<and> group_state ex_cut_world ''F'' = Inr has_cuts
   \<and> doc_open ex_world
   \<and> \<not> (\<exists>ob \<in> set (Objects ex_world). is_group_named ''Cut_F'' ob)
   \<and> group_state ex_world ''F'' = Inr no_group"
proof -
  have d: "doc_open ex_cut_world" "doc_open ex_world"
    by (simp_all add: ex_cut_world_def ex_world_def)
  have g: "is_group_named ''Cut_F'' (Objects ex_cut_world ! 2)"
    by code_simp
  have j: "\<forall>ob \<in> set (take 2 (Objects ex_cut_world)). \<not> is_group_named ''Cut_F'' ob"
    by code_simp
  have m: "\<exists>m \<in> set (Group (Objects ex_cut_world ! 2)).
          TypeId (obj_at (Objects ex_cut_world) m) = ''Part::Cut''"
    by code_simp
  have n: "\<forall>ob \<in> set (Objects ex_world). \<not> is_group_named ''Cut_F'' ob"
    by code_simp
  have l: "2 < length (Objects ex_cut_world)"
    by (simp add: ex_cut_world_def)
  from group_state_rule [OF d(1), of "''F''"] g j m l
  have a: "group_state ex_cut_world ''F'' = Inr has_cuts"
    by (simp add: Let_def)
  from group_state_rule [OF d(2), of "''F''"] n
  have b: "group_state ex_world ''F'' = Inr no_group"
    by simp
  show ?thesis
    using d g j m n a b by blast
qed

section \<open>The terminal state\<close>

text \<open>
  Each handler rejects when the letter its own guard reads is in the state \<open>has_cuts\<close>:
  it returns normally and leaves the state it found with one error report appended. The
  four single-step handlers read the letter of the combo box, the full sequence reads
  the stored letter.
\<close>

lemma guard_rejects_has_cuts:
  assumes "group_state w L = Inr has_cuts"
  shows "(letter_combo p = L \<longrightarrow>
            (\<exists>m. is_error m \<and> handle_create_group_structure p w = Inr (report m w))
          \<and> (\<exists>m. is_error m \<and> handle_create_links limit p w = Inr (report m w))
          \<and> (\<exists>m. is_error m \<and> handle_create_cube p w = Inr (report m w))
          \<and> (\<exists>m. is_error m \<and> handle_do_cuts p w = Inr (report m w)))
       \<and> (selected_letter p = Some L \<longrightarrow>
            (\<exists>m. is_error m \<and> handle_do_all limit p w = Inr (report m w)))"
proof (intro conjI impI)
  assume L: "letter_combo p = L"
  show "\<exists>m. is_error m \<and> handle_create_group_structure p w = Inr (report m w)"
    using assms L by (auto simp: handle_create_group_structure_def intro!: exI[of _ "PrintError _"])
  show "\<exists>m. is_error m \<and> handle_create_links limit p w = Inr (report m w)"
    using assms L by (auto simp: handle_create_links_def intro!: exI[of _ "PrintError _"])
  show "\<exists>m. is_error m \<and> handle_create_cube p w = Inr (report m w)"
    using assms L by (auto simp: handle_create_cube_def intro!: exI[of _ "PrintError _"])
  show "\<exists>m. is_error m \<and> handle_do_cuts p w = Inr (report m w)"
    using assms L by (auto simp: handle_do_cuts_def intro!: exI[of _ "PrintError _"])
next
  assume L: "selected_letter p = Some L"
  show "\<exists>m. is_error m \<and> handle_do_all limit p w = Inr (report m w)"
    using assms L by (auto simp: handle_do_all_def intro!: exI[of _ "PrintError _"])
qed

lemma guard_rejects_has_cuts_example:
  "group_state ex_cut_world ''F'' = Inr has_cuts
   \<and> (\<exists>m. is_error m \<and> handle_create_group_structure ex_panel ex_cut_world = Inr (report m ex_cut_world))
   \<and> (\<exists>m. is_error m \<and> handle_create_links 10 ex_panel ex_cut_world = Inr (report m ex_cut_world))
   \<and> (\<exists>m. is_error m \<and> handle_create_cube ex_panel ex_cut_world = Inr (report m ex_cut_world))
   \<and> (\<exists>m. is_error m \<and> handle_do_cuts ex_panel ex_cut_world = Inr (report m ex_cut_world))
   \<and> (\<exists>m. is_error m \<and> handle_do_all 10 ex_panel ex_cut_world = Inr (report m ex_cut_world))"
proof -
  have h: "group_state ex_cut_world ''F'' = Inr has_cuts"
    by code_simp
  have c: "letter_combo ex_panel = ''F''" "selected_letter ex_panel = Some ''F''"
    by (simp_all add: ex_panel_def)
  show ?thesis
    using h c guard_rejects_has_cuts [OF h, of ex_panel 10] by blast
qed

text \<open>
  Claim C1. Once the container of a letter holds a cut result, every build action for
  that letter should return after an error without changing the document. The code does
  not do so when the stored letter and the combo's letter differ, because a guard and
  the generator it protects read the letter from different places: \<open>handle_create_links\<close>
  classifies the combo's letter while \<open>A030_create_links\<close> works on the stored one. With
  \<open>F\<close> stored, \<open>G\<close> in the combo box and a cut in \<open>Cut_F\<close>, "build links" reports
  nothing, creates the link \<open>F001_Link_Body\<close> and adds it to \<open>Cut_F\<close>.
\<close>

theorem has_cuts_escape:
  "group_state ex_cut_world ''F'' = Inr has_cuts
   \<and> selected_letter ex_panel_combo_G = Some ''F''
   \<and> (case handle_create_links 10 ex_panel_combo_G ex_cut_world of
         Inl e \<Rightarrow> False
       | Inr w' \<Rightarrow> reports w' = []
                 \<and> Group (Objects ex_cut_world ! 2) = [3]
                 \<and> Group (Objects w' ! 2) = [3, 4]
                 \<and> TypeId (Objects w' ! 4) = ''App::Link''
                 \<and> Label (Objects w' ! 4) = ''F001_Link_Body'')"
  by code_simp

section \<open>Facts about the host operations and the group-structure builder\<close>

subsection \<open>Reading and writing objects\<close>

lemma obj_at_lt [simp]: "r < length objs \<Longrightarrow> obj_at objs r = objs ! r"
  by (simp add: obj_at_def)

lemma obj_at_append_last [simp]: "obj_at (objs @ [x]) (length objs) = x"
  by (simp add: obj_at_def)

lemma obj_at_append_lt [simp]: "r < length objs \<Longrightarrow> obj_at (objs @ xs) r = objs ! r"
  by (simp add: obj_at_def nth_append)

lemma Objects_upd_obj: "Objects (upd_obj r f w) = (Objects w)[r := f (obj_at (Objects w) r)]"
  by (simp add: upd_obj_def)

lemma doc_addObject_simps [simp]:
  "fst (doc_addObject t n w) = length (Objects w)"
  "Objects (snd (doc_addObject t n w)) =
     Objects w @ [new_object t (unique_name (map Name (Objects w)) (getIdentifier n))]"
  "ActiveObject (snd (doc_addObject t n w)) = Some (length (Objects w))"
  "doc_open (snd (doc_addObject t n w)) = doc_open w"
  "reports (snd (doc_addObject t n w)) = reports w"
  "selection (snd (doc_addObject t n w)) = selection w"
  by (simp_all add: doc_addObject_def Let_def)

lemma set_Label_simps [simp]:
  "Objects (set_Label r l w) = (Objects w)[r := (obj_at (Objects w) r)\<lparr>Label := l\<rparr>]"
  "ActiveObject (set_Label r l w) = ActiveObject w"
  "doc_open (set_Label r l w) = doc_open w"
  "reports (set_Label r l w) = reports w"
  "selection (set_Label r l w) = selection w"
  by (simp_all add: set_Label_def Objects_upd_obj)

lemma group_addObject_simps [simp]:
  "length (Objects (group_addObject g r w)) = length (Objects w)"
  "ActiveObject (group_addObject g r w) = ActiveObject w"
  "doc_open (group_addObject g r w) = doc_open w"
  "reports (group_addObject g r w) = reports w"
  "selection (group_addObject g r w) = selection w"
  by (simp_all add: group_addObject_def)

lemma new_object_simps [simp]:
  "Name (new_object t n) = n"
  "Label (new_object t n) = n"
  "TypeId (new_object t n) = t"
  "Group (new_object t n) = []"
  "OutList (new_object t n) = []"
  "LinkedObject (new_object t n) = []"
  "HasSolids (new_object t n) = False"
  "Visibility (new_object t n) = True"
  by (simp_all add: new_object_def)

subsection \<open>The root container\<close>

lemma ensure_root_found:
  "find_object (is_group_labelled ''All_Cutviews----------------'') (Objects w) = Some r
   \<Longrightarrow> ensure_root w = (r, w)"
  by (simp add: ensure_root_def)

lemma ensure_root_created:
  assumes "find_object (is_group_labelled ''All_Cutviews----------------'') (Objects w) = None"
  shows "fst (ensure_root w) = length (Objects w)"
    and "Objects (snd (ensure_root w)) =
           Objects w @ [(new_object ''App::DocumentObjectGroup''
              (unique_name (map Name (Objects w)) ''All_Cutviews''))
              \<lparr>Label := ''All_Cutviews----------------''\<rparr>]"
    and "reports (snd (ensure_root w)) =
           reports w @ [PrintMessage ''All_Cutviews group has been created!\<newline>'']"
proof -
  have id: "getIdentifier ''All_Cutviews'' = ''All_Cutviews''"
    by code_simp
  obtain r w1 where a: "doc_addObject ''App::DocumentObjectGroup'' ''All_Cutviews'' w = (r, w1)"
    by (cases "doc_addObject ''App::DocumentObjectGroup'' ''All_Cutviews'' w")
  then have r: "r = length (Objects w)"
    and o: "Objects w1 = Objects w @ [new_object ''App::DocumentObjectGroup''
              (unique_name (map Name (Objects w)) ''All_Cutviews'')]"
    and m: "reports w1 = reports w"
    using doc_addObject_simps(1,2,5) [of "''App::DocumentObjectGroup''" "''All_Cutviews''" w]
    by (simp_all add: id)
  from assms a show "fst (ensure_root w) = length (Objects w)"
    by (simp add: ensure_root_def r)
  from assms a show "Objects (snd (ensure_root w)) =
           Objects w @ [(new_object ''App::DocumentObjectGroup''
              (unique_name (map Name (Objects w)) ''All_Cutviews''))
              \<lparr>Label := ''All_Cutviews----------------''\<rparr>]"
    by (simp add: ensure_root_def r o)
  from assms a show "reports (snd (ensure_root w)) =
           reports w @ [PrintMessage ''All_Cutviews group has been created!\<newline>'']"
    by (simp add: ensure_root_def m)
qed

lemma ensure_root_doc_open [simp]: "doc_open (snd (ensure_root w)) = doc_open w"
  by (simp add: ensure_root_def Let_def split: option.splits prod.splits)
     (metis doc_addObject_simps(4) snd_conv)

lemma is_error_invalid_letter_msg [simp]: "is_error (invalid_letter_msg v)"
  by (simp add: invalid_letter_msg_def)

lemma A020_invalid:
  assumes "doc_open w"
    and "case selected_letter p of None \<Rightarrow> True | Some l \<Rightarrow> length (strip l) \<noteq> 1"
  shows "A020_create_group_structure p w =
           report (invalid_letter_msg (case selected_letter p of None \<Rightarrow> ''None'' | Some l \<Rightarrow> strip l))
             (snd (ensure_root w))"
  using assms
  by (simp add: A020_create_group_structure_def split: option.splits prod.splits)

section \<open>The builder and an invalid letter\<close>

lemma A020_invalid_root_found:
  assumes a: "A020_create_group_structure p w = report m (snd (ensure_root w))"
   and "find_object (is_group_labelled ''All_Cutviews----------------'') (Objects w) = Some r"
  shows "A020_create_group_structure p w = report m w"
proof -
  from assms(2) have "ensure_root w = (r, w)" by (rule ensure_root_found)
  with a show ?thesis by simp
qed

lemma A020_invalid_root_created:
  assumes a: "A020_create_group_structure p w = report m (snd (ensure_root w))"
   and n: "find_object (is_group_labelled ''All_Cutviews----------------'') (Objects w) = None"
  shows "Objects (A020_create_group_structure p w) =
                     Objects w @ [(new_object ''App::DocumentObjectGroup''
                        (unique_name (map Name (Objects w)) ''All_Cutviews''))
                        \<lparr>Label := ''All_Cutviews----------------''\<rparr>]
                \<and> reports (A020_create_group_structure p w) =
                     reports w @ [PrintMessage ''All_Cutviews group has been created!\<newline>'', m]"
  unfolding a using ensure_root_created(2,3) [OF n] by simp


text \<open>
  Claim C4, as amended. When the stored letter is absent or, once stripped, is empty or
  longer than one character, the builder reports an error and creates no per-letter
  container. It has ensured the root container before it looks at the letter: if a
  group labelled \<open>All_Cutviews----------------\<close> exists the document is left as it was,
  otherwise exactly that root container has been created.
\<close>

theorem invalid_letter_no_letter_group:
  assumes "doc_open w"
    and "case selected_letter p of None \<Rightarrow> True | Some l \<Rightarrow> length (strip l) \<noteq> 1"
  shows "\<exists>m. is_error m
         \<and> (find_object (is_group_labelled ''All_Cutviews----------------'') (Objects w) \<noteq> None
              \<longrightarrow> A020_create_group_structure p w = report m w)
         \<and> (find_object (is_group_labelled ''All_Cutviews----------------'') (Objects w) = None
              \<longrightarrow> Objects (A020_create_group_structure p w) =
                     Objects w @ [(new_object ''App::DocumentObjectGroup''
                        (unique_name (map Name (Objects w)) ''All_Cutviews''))
                        \<lparr>Label := ''All_Cutviews----------------''\<rparr>]
                \<and> reports (A020_create_group_structure p w) =
                     reports w @ [PrintMessage ''All_Cutviews group has been created!\<newline>'', m])"
proof -
  obtain m where m: "is_error m"
    and a: "A020_create_group_structure p w = report m (snd (ensure_root w))"
    using A020_invalid [OF assms] is_error_invalid_letter_msg by blast
  show ?thesis
  proof (intro exI [of _ m] conjI impI)
    show "is_error m" by (rule m)
  next
    assume "find_object (is_group_labelled ''All_Cutviews----------------'') (Objects w) \<noteq> None"
    then obtain r where
      "find_object (is_group_labelled ''All_Cutviews----------------'') (Objects w) = Some r"
      by blast
    with a show "A020_create_group_structure p w = report m w"
      by (rule A020_invalid_root_found)
  next
    assume n: "find_object (is_group_labelled ''All_Cutviews----------------'') (Objects w) = None"
    from A020_invalid_root_created [OF a n]
    show "Objects (A020_create_group_structure p w) =
                     Objects w @ [(new_object ''App::DocumentObjectGroup''
                        (unique_name (map Name (Objects w)) ''All_Cutviews''))
                        \<lparr>Label := ''All_Cutviews----------------''\<rparr>]"
      by (rule conjunct1)
    from A020_invalid_root_created [OF a n]
    show "reports (A020_create_group_structure p w) =
                     reports w @ [PrintMessage ''All_Cutviews group has been created!\<newline>'', m]"
      by (rule conjunct2)
  qed
qed

theorem invalid_letter_no_letter_group_witness:
  "doc_open ex_world
   \<and> selected_letter ex_panel_no_letter = None
   \<and> find_object (is_group_labelled ''All_Cutviews----------------'') (Objects ex_world) = None
   \<and> Objects (A020_create_group_structure ex_panel_no_letter ex_world) =
        Objects ex_world @ [(new_object ''App::DocumentObjectGroup''
                        (unique_name (map Name (Objects ex_world)) ''All_Cutviews''))
                        \<lparr>Label := ''All_Cutviews----------------''\<rparr>]
   \<and> doc_open ex_group_world
   \<and> find_object (is_group_labelled ''All_Cutviews----------------'') (Objects ex_group_world) = Some 2
   \<and> Objects (A020_create_group_structure ex_panel_no_letter ex_group_world) = Objects ex_group_world"
proof -
  have d: "doc_open ex_world" "doc_open ex_group_world"
    by (simp_all add: ex_world_def ex_group_world_def)
  have l: "selected_letter ex_panel_no_letter = None"
    by (simp add: ex_panel_no_letter_def)
  have f: "find_object (is_group_labelled ''All_Cutviews----------------'') (Objects ex_world) = None"
    by code_simp
  have g: "find_object (is_group_labelled ''All_Cutviews----------------'') (Objects ex_group_world) = Some 2"
    by code_simp
  have c: "case selected_letter ex_panel_no_letter of None \<Rightarrow> True | Some l \<Rightarrow> length (strip l) \<noteq> 1"
    by (simp add: l)
  from invalid_letter_no_letter_group [OF d(1) c] f
  have a: "Objects (A020_create_group_structure ex_panel_no_letter ex_world) =
        Objects ex_world @ [(new_object ''App::DocumentObjectGroup''
                        (unique_name (map Name (Objects ex_world)) ''All_Cutviews''))
                        \<lparr>Label := ''All_Cutviews----------------''\<rparr>]"
    by auto
  from invalid_letter_no_letter_group [OF d(2) c] g
  have b: "Objects (A020_create_group_structure ex_panel_no_letter ex_group_world) = Objects ex_group_world"
    by auto
  show ?thesis
    using d l f g a b by blast
qed

text \<open>The claim as it stands fails: with no letter stored and no root container in the
  document, the builder creates the root container before it reports the error.\<close>

theorem invalid_letter_counterexample:
  "doc_open ex_world
   \<and> selected_letter ex_panel_no_letter = None
   \<and> length (Objects (A020_create_group_structure ex_panel_no_letter ex_world))
       = length (Objects ex_world) + 1
   \<and> is_group_labelled ''All_Cutviews----------------''
       (last (Objects (A020_create_group_structure ex_panel_no_letter ex_world)))"
  by code_simp

section \<open>The link generator\<close>

subsection \<open>Selection and link commands\<close>

lemma selection_ops_simps [simp]:
  "Objects (clearSelection w) = Objects w"
  "ActiveObject (clearSelection w) = ActiveObject w"
  "doc_open (clearSelection w) = doc_open w"
  "reports (clearSelection w) = reports w"
  "selection (clearSelection w) = []"
  "Objects (addSelection r w) = Objects w"
  "ActiveObject (addSelection r w) = ActiveObject w"
  "doc_open (addSelection r w) = doc_open w"
  "reports (addSelection r w) = reports w"
  "selection (addSelection r w) = selection w @ [r]"
  by (simp_all add: clearSelection_def addSelection_def)

lemma getIdentifier_Link: "getIdentifier ''Link'' = ''Link''"
  by code_simp

lemma list_update_append_last: "(xs @ [x])[length xs := y] = xs @ [y]"
  by (simp add: list_update_append)

lemma make_link_simps [simp]:
  "Objects (make_link t w) = Objects w @ [link_object (map Name (Objects w)) t]"
  "ActiveObject (make_link t w) = Some (length (Objects w))"
  "doc_open (make_link t w) = doc_open w"
  "reports (make_link t w) = reports w"
  "selection (make_link t w) = selection w"
  by (simp_all add: make_link_def doc_addObject_def Let_def upd_obj_def link_object_def
        getIdentifier_Link list_update_append_last)

lemma same_core_refl [simp]: "same_core a a"
  by (simp add: same_core_def)

lemma same_core_trans: "same_core a b \<Longrightarrow> same_core b c \<Longrightarrow> same_core a c"
  by (simp add: same_core_def)

lemma same_core_Visibility [simp]: "same_core (a\<lparr>Visibility := v\<rparr>) b = same_core a b"
  by (simp add: same_core_def)

lemma same_core_add_member [simp]: "same_core (add_member r a) b = same_core a b"
  by (simp add: same_core_def add_member_def)

lemma add_member_simps [simp]:
  "Name (add_member r a) = Name a"
  "Label (add_member r a) = Label a"
  "TypeId (add_member r a) = TypeId a"
  "LinkedObject (add_member r a) = LinkedObject a"
  "r \<in> set (Group (add_member r a))"
  "set (Group (add_member r a)) = insert r (set (Group a))"
  by (auto simp: add_member_def)

lemma Objects_group_addObject:
  "Objects (group_addObject g r w) = (Objects w)[g := add_member r (obj_at (Objects w) g)]"
  by (simp add: group_addObject_def Objects_upd_obj)

lemma link_step_Objects:
  assumes "ob < length (Objects w)"
  shows "Objects (link_step letter grp idx ob w) =
           (linked letter idx ob w)
             [grp := add_member (length (Objects w)) (obj_at (linked letter idx ob w) grp)]"
  using assms
  by (simp add: link_step_def Let_def Std_LinkMake_def Std_LinkMakeRelative_def linked_def
        Objects_upd_obj Objects_group_addObject link_object_def nth_append
        list_update_append list_update_append_last)

lemma link_step_frame [simp]:
  "doc_open (link_step letter grp idx ob w) = doc_open w"
  "reports (link_step letter grp idx ob w) = reports w"
  by (simp_all add: link_step_def Let_def Std_LinkMake_def Std_LinkMakeRelative_def
        split: option.splits)

lemma nth_upd: "j < length xs \<Longrightarrow> (xs[i := x]) ! j = (if i = j then x else xs ! j)"
  by (cases "i = j") simp_all

lemma linked_length [simp]: "length (linked letter idx ob w) = length (Objects w) + 1"
  by (simp add: linked_def)

lemma linked_old:
  "i < length (Objects w) \<Longrightarrow> same_core (linked letter idx ob w ! i) (Objects w ! i)"
  by (simp add: linked_def nth_append nth_upd)

lemma linked_old_Group:
  "i < length (Objects w) \<Longrightarrow> Group (linked letter idx ob w ! i) = Group (Objects w ! i)"
  by (simp add: linked_def nth_append nth_upd)

lemma linked_new:
  "TypeId (linked letter idx ob w ! length (Objects w)) = ''App::Link''"
  "Label (linked letter idx ob w ! length (Objects w))
     = sub_link_label letter idx (Label (Objects w ! ob))"
  "LinkedObject (linked letter idx ob w ! length (Objects w)) = [ob]"
  "Group (linked letter idx ob w ! length (Objects w)) = []"
  by (simp_all add: linked_def nth_append link_object_def)

lemma link_step_length:
  "ob < length (Objects w) \<Longrightarrow>
   length (Objects (link_step letter grp idx ob w)) = length (Objects w) + 1"
  by (simp add: link_step_Objects)

lemma link_step_old:
  assumes "ob < length (Objects w)" "i < length (Objects w)"
  shows "same_core (Objects (link_step letter grp idx ob w) ! i) (Objects w ! i)"
  using assms linked_old [of i w letter idx ob]
  by (simp add: link_step_Objects nth_upd)

lemma link_step_new:
  assumes "ob < length (Objects w)"
  shows "TypeId (Objects (link_step letter grp idx ob w) ! length (Objects w)) = ''App::Link''"
    and "Label (Objects (link_step letter grp idx ob w) ! length (Objects w))
           = sub_link_label letter idx (Label (Objects w ! ob))"
    and "LinkedObject (Objects (link_step letter grp idx ob w) ! length (Objects w)) = [ob]"
  using assms
  by (simp_all add: link_step_Objects nth_upd linked_new)

lemma link_step_member:
  assumes "ob < length (Objects w)" "grp < length (Objects w)"
  shows "length (Objects w) \<in> set (Group (Objects (link_step letter grp idx ob w) ! grp))"
  using assms
  by (simp add: link_step_Objects)

lemma link_step_Group:
  assumes "ob < length (Objects w)" "i < length (Objects w) + 1"
  shows "set (Group (Objects (link_step letter grp idx ob w) ! i))
           \<subseteq> insert (length (Objects w)) (set (Group (obj_at (Objects w) i)))"
proof (cases "i < length (Objects w)")
  case True
  with assms show ?thesis
    by (auto simp: link_step_Objects nth_upd linked_old_Group)
next
  case False
  with assms have "i = length (Objects w)" by simp
  with assms show ?thesis
    by (auto simp: link_step_Objects nth_upd linked_new obj_at_def)
qed


lemma link_step_Group_mono:
  assumes "ob < length (Objects w)" "i < length (Objects w)"
  shows "set (Group (Objects w ! i)) \<subseteq> set (Group (Objects (link_step letter grp idx ob w) ! i))"
  using assms
  by (auto simp: link_step_Objects nth_upd linked_old_Group)

subsection \<open>The loop over the solids\<close>

lemma link_loop_length:
  "\<forall>ob \<in> set obs. ob < length (Objects w) \<Longrightarrow>
   length (Objects (link_loop letter grp idx obs w)) = length (Objects w) + length obs"
proof (induction obs arbitrary: w idx)
  case Nil
  then show ?case by simp
next
  case (Cons ob obs)
  let ?w1 = "link_step letter grp idx ob w"
  from Cons.prems have l: "length (Objects ?w1) = length (Objects w) + 1"
    by (simp add: link_step_length)
  with Cons.prems have "\<forall>x \<in> set obs. x < length (Objects ?w1)" by auto
  from Cons.IH [OF this] l show ?case by simp
qed

lemma link_loop_frame:
  "reports (link_loop letter grp idx obs w) = reports w
   \<and> doc_open (link_loop letter grp idx obs w) = doc_open w"
  by (induction obs arbitrary: w idx) simp_all

lemma link_loop_old:
  assumes "\<forall>ob \<in> set obs. ob < length (Objects w)" "i < length (Objects w)"
  shows "same_core (Objects (link_loop letter grp idx obs w) ! i) (Objects w ! i)
         \<and> set (Group (Objects w ! i)) \<subseteq> set (Group (Objects (link_loop letter grp idx obs w) ! i))"
  using assms
proof (induction obs arbitrary: w idx)
  case Nil
  then show ?case by simp
next
  case (Cons ob obs)
  let ?w1 = "link_step letter grp idx ob w"
  from Cons.prems have ob: "ob < length (Objects w)" by simp
  then have l: "length (Objects ?w1) = length (Objects w) + 1"
    by (simp add: link_step_length)
  with Cons.prems have a: "\<forall>x \<in> set obs. x < length (Objects ?w1)"
    and i: "i < length (Objects ?w1)" by auto
  from Cons.IH [OF a i]
  have "same_core (Objects (link_loop letter grp (idx + 1) obs ?w1) ! i) (Objects ?w1 ! i)"
    and "set (Group (Objects ?w1 ! i)) \<subseteq> set (Group (Objects (link_loop letter grp (idx + 1) obs ?w1) ! i))"
    by simp_all
  moreover have "same_core (Objects ?w1 ! i) (Objects w ! i)"
    using ob Cons.prems(2) by (rule link_step_old)
  moreover have "set (Group (Objects w ! i)) \<subseteq> set (Group (Objects ?w1 ! i))"
    using ob Cons.prems(2) by (rule link_step_Group_mono)
  ultimately show ?case
    by (auto intro: same_core_trans)
qed

lemma link_loop_new:
  assumes "\<forall>ob \<in> set obs. ob < length (Objects w)" "grp < length (Objects w)"
    "k < length obs"
  shows "TypeId (Objects (link_loop letter grp idx obs w) ! (length (Objects w) + k)) = ''App::Link''
       \<and> Label (Objects (link_loop letter grp idx obs w) ! (length (Objects w) + k))
            = sub_link_label letter (idx + k) (Label (Objects w ! (obs ! k)))
       \<and> LinkedObject (Objects (link_loop letter grp idx obs w) ! (length (Objects w) + k)) = [obs ! k]
       \<and> length (Objects w) + k \<in> set (Group (Objects (link_loop letter grp idx obs w) ! grp))"
  using assms
proof (induction obs arbitrary: w idx k)
  case Nil
  then show ?case by simp
next
  case (Cons ob obs)
  let ?w1 = "link_step letter grp idx ob w"
  let ?W = "link_loop letter grp (idx + 1) obs ?w1"
  let ?n = "length (Objects w)"
  from Cons.prems have ob: "ob < ?n" by simp
  then have l: "length (Objects ?w1) = ?n + 1"
    by (simp add: link_step_length)
  with Cons.prems have a: "\<forall>x \<in> set obs. x < length (Objects ?w1)"
    and g: "grp < length (Objects ?w1)" by auto
  show ?case
  proof (cases k)
    case 0
    have n: "?n < length (Objects ?w1)" using l by simp
    from link_loop_old [OF a n, of letter grp "idx + 1"]
    have c: "same_core (Objects ?W ! ?n) (Objects ?w1 ! ?n)" by simp
    from link_loop_old [OF a g, of letter grp "idx + 1"]
    have m: "set (Group (Objects ?w1 ! grp)) \<subseteq> set (Group (Objects ?W ! grp))" by simp
    have "?n \<in> set (Group (Objects ?w1 ! grp))"
      using ob Cons.prems(2) by (rule link_step_member)
    with m have "?n \<in> set (Group (Objects ?W ! grp))" by blast
    with c link_step_new [OF ob, of letter grp idx] 0 show ?thesis
      by (simp add: same_core_def)
  next
    case (Suc j)
    with Cons.prems have j: "j < length obs" by simp
    from Cons.IH [OF a g j, of "idx + 1"] l
    have "TypeId (Objects ?W ! (?n + Suc j)) = ''App::Link''"
      and lab: "Label (Objects ?W ! (?n + Suc j))
            = sub_link_label letter (idx + Suc j) (Label (Objects ?w1 ! (obs ! j)))"
      and "LinkedObject (Objects ?W ! (?n + Suc j)) = [obs ! j]"
      and "?n + Suc j \<in> set (Group (Objects ?W ! grp))"
      by simp_all
    moreover from Cons.prems j have "obs ! j < ?n" by simp
    with ob have "same_core (Objects ?w1 ! (obs ! j)) (Objects w ! (obs ! j))"
      by (rule link_step_old)
    then have "Label (Objects ?w1 ! (obs ! j)) = Label (Objects w ! (obs ! j))"
      by (simp add: same_core_def)
    ultimately show ?thesis using Suc by simp
  qed
qed

lemma link_loop_Groups:
  assumes "\<forall>ob \<in> set obs. ob < length (Objects w)"
    "i < length (Objects (link_loop letter grp idx obs w))"
  shows "set (Group (Objects (link_loop letter grp idx obs w) ! i))
           \<subseteq> set (Group (obj_at (Objects w) i))
              \<union> {length (Objects w) ..< length (Objects (link_loop letter grp idx obs w))}"
  using assms
proof (induction obs arbitrary: w idx)
  case Nil
  then show ?case by simp
next
  case (Cons ob obs)
  let ?w1 = "link_step letter grp idx ob w"
  let ?W = "link_loop letter grp (idx + 1) obs ?w1"
  let ?n = "length (Objects w)"
  from Cons.prems have ob: "ob < ?n" by simp
  then have l: "length (Objects ?w1) = ?n + 1"
    by (simp add: link_step_length)
  with Cons.prems have a: "\<forall>x \<in> set obs. x < length (Objects ?w1)" by auto
  from Cons.prems(2) have i: "i < length (Objects ?W)" by simp
  have L: "length (Objects ?W) = ?n + 1 + length obs"
    using link_loop_length [OF a, of letter grp "idx + 1"] l by simp
  from Cons.IH [OF a i]
  have b: "set (Group (Objects ?W ! i))
           \<subseteq> set (Group (obj_at (Objects ?w1) i)) \<union> {?n + 1 ..< length (Objects ?W)}"
    using l by simp
  have c: "set (Group (obj_at (Objects ?w1) i)) \<subseteq> insert ?n (set (Group (obj_at (Objects w) i)))"
  proof (cases "i < ?n + 1")
    case True
    with link_step_Group [OF ob True, of letter grp idx] l show ?thesis by simp
  next
    case False
    with l show ?thesis by (simp add: obj_at_def)
  qed
  have "set (Group (Objects ?W ! i))
           \<subseteq> set (Group (obj_at (Objects w) i)) \<union> {?n ..< length (Objects ?W)}"
  proof
    fix x
    assume "x \<in> set (Group (Objects ?W ! i))"
    with b have "x \<in> set (Group (obj_at (Objects ?w1) i))
                 \<or> (?n + 1 \<le> x \<and> x < length (Objects ?W))"
      by auto
    moreover have "x \<in> set (Group (obj_at (Objects ?w1) i))
                 \<Longrightarrow> x = ?n \<or> x \<in> set (Group (obj_at (Objects w) i))"
      using c by blast
    ultimately show "x \<in> set (Group (obj_at (Objects w) i)) \<union> {?n ..< length (Objects ?W)}"
      using L by auto
  qed
  then show ?case by simp
qed

subsection \<open>The traversal\<close>

lemma collect_all_bound:
  assumes "\<And>c xs. f c = Inr xs \<Longrightarrow> \<forall>x \<in> set xs. P x"
    and "collect_all f cs = Inr ys"
  shows "\<forall>x \<in> set ys. P x"
  using assms(2)
proof (induction cs arbitrary: ys)
  case Nil
  then show ?case by simp
next
  case (Cons c cs)
  then show ?case
    using assms(1) by (fastforce split: sum.splits)
qed

lemma collect_bound:
  "collect k objs r = Inr xs \<Longrightarrow> \<forall>x \<in> set xs. x < length objs"
proof (induction k arbitrary: r xs)
  case 0
  then show ?case by simp
next
  case (Suc k)
  have dangling: "TypeId (obj_at objs r) \<noteq> [] \<Longrightarrow> r < length objs"
    by (auto simp: obj_at_def split: if_splits)
  show ?case
  proof (cases "TypeId (obj_at objs r) \<in> set [''Assembly::Assembly'', ''Assembly::AssemblyObject'', ''App::Part'']")
    case True
    with Suc.prems have "collect_all (collect k objs) (OutList (obj_at objs r)) = Inr xs"
      by (simp add: Let_def)
    then show ?thesis
      using Suc.IH by (rule collect_all_bound [rotated])
  next
    case False
    with Suc.prems dangling show ?thesis
      by (auto simp: Let_def split: if_splits)
  qed
qed

lemma collect_all_cong:
  "(\<And>c. f c = g c) \<Longrightarrow> collect_all f cs = collect_all g cs"
proof -
  assume "\<And>c. f c = g c"
  then have "f = g" by (rule ext)
  then show ?thesis by simp
qed

lemma obj_at_append_group:
  assumes "TypeId g = ''App::DocumentObjectGroup''"
  shows "obj_at (objs @ [g]) r = obj_at objs r
         \<or> (TypeId (obj_at (objs @ [g]) r) = ''App::DocumentObjectGroup''
             \<and> TypeId (obj_at objs r) = [])"
  using assms by (auto simp: obj_at_def nth_append)

lemma is_body_type_append_group:
  assumes "TypeId g = ''App::DocumentObjectGroup''"
  shows "is_body_type (TypeId (obj_at (objs @ [g]) l)) = is_body_type (TypeId (obj_at objs l))"
  using obj_at_append_group [OF assms, of objs l]
  by (auto simp: is_body_type_def)

lemma collect_append_group:
  assumes "TypeId g = ''App::DocumentObjectGroup''"
  shows "collect k (objs @ [g]) r = collect k objs r"
proof (induction k arbitrary: r)
  case 0
  then show ?case by simp
next
  case (Suc k)
  have all: "collect_all (collect k (objs @ [g])) cs = collect_all (collect k objs) cs" for cs
    by (rule collect_all_cong) (rule Suc.IH)
  from obj_at_append_group [OF assms, of objs r]
  show ?case
  proof
    assume "obj_at (objs @ [g]) r = obj_at objs r"
    then show ?thesis
      by (simp add: Let_def all is_body_type_append_group [OF assms])
  next
    assume "TypeId (obj_at (objs @ [g]) r) = ''App::DocumentObjectGroup''
             \<and> TypeId (obj_at objs r) = []"
    then show ?thesis
      by (simp add: Let_def)
  qed
qed

subsection \<open>Find or create the group\<close>

lemma find_or_create_group_found:
  "find_object (is_group_named n) (Objects w) = Some g \<Longrightarrow> find_or_create_group n w = (g, w)"
  by (simp add: find_or_create_group_def)

lemma find_or_create_group_created:
  assumes "find_object (is_group_named n) (Objects w) = None"
  shows "fst (find_or_create_group n w) = length (Objects w)"
    and "Objects (snd (find_or_create_group n w)) =
           Objects w @ [(new_object ''App::DocumentObjectGroup''
              (unique_name (map Name (Objects w)) (getIdentifier n)))\<lparr>Label := n\<rparr>]"
    and "reports (snd (find_or_create_group n w)) = reports w"
    and "doc_open (snd (find_or_create_group n w)) = doc_open w"
  using assms
  by (simp_all add: find_or_create_group_def doc_addObject_def Let_def list_update_append_last)

lemma find_or_create_group_valid:
  "fst (find_or_create_group n w) < length (Objects (snd (find_or_create_group n w)))"
proof (cases "find_object (is_group_named n) (Objects w)")
  case None
  then show ?thesis by (simp add: find_or_create_group_created)
next
  case (Some g)
  then have "g < length (Objects w)" by (simp add: find_object_Some)
  with Some show ?thesis by (simp add: find_or_create_group_found)
qed

lemma find_or_create_group_collect:
  "collect k (Objects (snd (find_or_create_group n w))) r = collect k (Objects w) r"
proof (cases "find_object (is_group_named n) (Objects w)")
  case None
  then show ?thesis
    by (simp add: find_or_create_group_created collect_append_group)
next
  case (Some g)
  then show ?thesis by (simp add: find_or_create_group_found)
qed

lemma find_or_create_group_frame [simp]:
  "reports (snd (find_or_create_group n w)) = reports w"
  "doc_open (snd (find_or_create_group n w)) = doc_open w"
  by (cases "find_object (is_group_named n) (Objects w)";
      simp add: find_or_create_group_created find_or_create_group_found)+

lemma A030_run:
  assumes "doc_open w" "selected_body p = Some b" "collect limit (Objects w) b = Inr solids"
  shows "A030_create_links limit p w =
           Inr (if solids = []
                then report (MessageBoxCritical ''Error''
                       ''No solids found in the selected body or assembly.'')
                       (snd (find_or_create_group (''Cut_'' @ links_letter p) w))
                else link_loop (links_letter p)
                       (fst (find_or_create_group (''Cut_'' @ links_letter p) w)) 0 solids
                       (snd (find_or_create_group (''Cut_'' @ links_letter p) w)))"
proof -
  obtain grp w1 where f: "find_or_create_group (''Cut_'' @ links_letter p) w = (grp, w1)"
    by (cases "find_or_create_group (''Cut_'' @ links_letter p) w")
  with find_or_create_group_collect [of limit "''Cut_'' @ links_letter p" w b] assms(3)
  have c: "collect limit (Objects w1) b = Inr solids" by simp
  from f have d: "find_or_create_group (CHR ''C'' # CHR ''u'' # CHR ''t'' # CHR ''_'' # links_letter p) w = (grp, w1)"
    by simp
  show ?thesis
    using assms(1,2) c d by (simp add: A030_create_links_def Let_def)
qed

section \<open>What the link generator does\<close>

lemma group_state_no_group:
  "group_state w L = Inr no_group \<Longrightarrow>
   doc_open w \<and> find_object (is_group_named (''Cut_'' @ L)) (Objects w) = None"
  by (auto simp: group_state_def Let_def split: if_splits option.splits)

lemma wf_doc_Group:
  "wf_doc w \<Longrightarrow> i < length (Objects w) \<Longrightarrow> r \<in> set (Group (Objects w ! i)) \<Longrightarrow> r < length (Objects w)"
  by (auto simp: wf_doc_def list_all_iff)

lemma A030_creates_group:
  assumes "doc_open w" "selected_body p = Some b"
    "find_object (is_group_named (''Cut_'' @ links_letter p)) (Objects w) = None"
    "collect limit (Objects w) b = Inr solids"
  shows "\<exists>w'. A030_create_links limit p w = Inr w'
         \<and> length (Objects w') = length (Objects w) + 1 + length solids
         \<and> same_core (Objects w' ! length (Objects w))
              ((new_object ''App::DocumentObjectGroup''
                  (unique_name (map Name (Objects w)) (getIdentifier (''Cut_'' @ links_letter p))))
                 \<lparr>Label := ''Cut_'' @ links_letter p\<rparr>)
         \<and> reports w' = reports w @ (if solids = []
              then [MessageBoxCritical ''Error'' ''No solids found in the selected body or assembly.'']
              else [])
         \<and> (\<forall>i < length (Objects w'). set (Group (Objects w' ! i))
               \<subseteq> set (Group (obj_at (Objects w) i)) \<union> {length (Objects w) + 1 ..< length (Objects w')})"
proof -
  define n where "n = ''Cut_'' @ links_letter p"
  define grp where "grp = fst (find_or_create_group n w)"
  define w1 where "w1 = snd (find_or_create_group n w)"
  define g where "g = (new_object ''App::DocumentObjectGroup''
                  (unique_name (map Name (Objects w)) (getIdentifier n)))\<lparr>Label := n\<rparr>"
  have f: "find_object (is_group_named n) (Objects w) = None"
    using assms(3) by (simp add: n_def)
  have o1: "Objects w1 = Objects w @ [g]"
    unfolding w1_def g_def using f by (rule find_or_create_group_created(2))
  have g1: "grp = length (Objects w)"
    unfolding grp_def using f by (rule find_or_create_group_created(1))
  have r1: "reports w1 = reports w"
    unfolding w1_def by simp
  have gg: "Group g = []"
    by (simp add: g_def)
  have gr1: "set (Group (obj_at (Objects w1) i)) \<subseteq> set (Group (obj_at (Objects w) i))" for i
    by (auto simp: o1 gg obj_at_def nth_append)
  have run: "A030_create_links limit p w =
           Inr (if solids = []
                then report (MessageBoxCritical ''Error''
                       ''No solids found in the selected body or assembly.'') w1
                else link_loop (links_letter p) grp 0 solids w1)"
    using A030_run [OF assms(1,2,4)] by (simp add: w1_def grp_def n_def)
  show ?thesis
  proof (cases "solids = []")
    case True
    with run
    have "A030_create_links limit p w = Inr (report
       (MessageBoxCritical ''Error'' ''No solids found in the selected body or assembly.'') w1)"
      by simp
    moreover have "\<forall>i < length (Objects w1). set (Group (Objects w1 ! i))
               \<subseteq> set (Group (obj_at (Objects w) i)) \<union> {length (Objects w) + 1 ..< length (Objects w1)}"
      by (auto simp: o1 gg obj_at_def nth_append)
    ultimately show ?thesis using True o1 r1
      by (simp add: g_def n_def)
  next
    case False
    define W where "W = link_loop (links_letter p) grp 0 solids w1"
    have a: "A030_create_links limit p w = Inr W"
      using run False by (simp add: W_def)
    have "\<forall>x \<in> set solids. x < length (Objects w)"
      using assms(4) by (rule collect_bound)
    then have b: "\<forall>x \<in> set solids. x < length (Objects w1)"
      by (auto simp: o1)
    have len: "length (Objects W) = length (Objects w) + 1 + length solids"
      unfolding W_def using link_loop_length [OF b, of "links_letter p" grp 0] by (simp add: o1)
    have "length (Objects w) < length (Objects w1)" by (simp add: o1)
    from link_loop_old [OF b this, of "links_letter p" grp 0]
    have core: "same_core (Objects W ! length (Objects w)) g"
      by (simp add: o1 W_def)
    have rep: "reports W = reports w"
      by (simp add: link_loop_frame W_def r1)
    have grp: "set (Group (Objects W ! i))
               \<subseteq> set (Group (obj_at (Objects w) i)) \<union> {length (Objects w) + 1 ..< length (Objects W)}"
      if "i < length (Objects W)" for i
    proof -
      from that link_loop_Groups [OF b, of i "links_letter p" grp 0]
      have "set (Group (Objects W ! i))
           \<subseteq> set (Group (obj_at (Objects w1) i)) \<union> {length (Objects w1) ..< length (Objects W)}"
        by (simp add: W_def)
      with gr1 [of i] show ?thesis by (auto simp: o1)
    qed
    show ?thesis
      using a len core rep grp False by (simp add: g_def n_def)
  qed
qed

text \<open>
  Claim C5, as amended. When the traversal of the selected body finds no leaf, the link
  generator reports an error, creates no link and changes no group membership. It has
  looked for the group \<open>Cut_<letter>\<close> before the traversal: if a group of that name
  exists the document is left as it was, otherwise exactly that group, empty and labelled
  \<open>Cut_<letter>\<close>, has been created.
\<close>

theorem no_solids_aborts:
  assumes "doc_open w" "selected_body p = Some b" "collect limit (Objects w) b = Inr []"
  shows "\<exists>m. is_error m
         \<and> (find_object (is_group_named (''Cut_'' @ links_letter p)) (Objects w) \<noteq> None
              \<longrightarrow> A030_create_links limit p w = Inr (report m w))
         \<and> (find_object (is_group_named (''Cut_'' @ links_letter p)) (Objects w) = None
              \<longrightarrow> (\<exists>w'. A030_create_links limit p w = Inr w'
                     \<and> Objects w' = Objects w @ [(new_object ''App::DocumentObjectGroup''
                          (unique_name (map Name (Objects w))
                             (getIdentifier (''Cut_'' @ links_letter p))))
                          \<lparr>Label := ''Cut_'' @ links_letter p\<rparr>]
                     \<and> reports w' = reports w @ [m]))"
proof -
  let ?m = "MessageBoxCritical ''Error'' ''No solids found in the selected body or assembly.''"
  let ?n = "''Cut_'' @ links_letter p"
  have a: "A030_create_links limit p w = Inr (report ?m (snd (find_or_create_group ?n w)))"
    using A030_run [OF assms] by simp
  show ?thesis
  proof (intro exI [of _ ?m] conjI impI)
    show "is_error ?m" by simp
  next
    assume "find_object (is_group_named ?n) (Objects w) \<noteq> None"
    then obtain g where "find_object (is_group_named ?n) (Objects w) = Some g" by blast
    then have "find_or_create_group ?n w = (g, w)" by (rule find_or_create_group_found)
    with a show "A030_create_links limit p w = Inr (report ?m w)" by simp
  next
    assume n: "find_object (is_group_named ?n) (Objects w) = None"
    show "\<exists>w'. A030_create_links limit p w = Inr w'
                     \<and> Objects w' = Objects w @ [(new_object ''App::DocumentObjectGroup''
                          (unique_name (map Name (Objects w)) (getIdentifier ?n)))
                          \<lparr>Label := ?n\<rparr>]
                     \<and> reports w' = reports w @ [?m]"
      using a find_or_create_group_created(2) [OF n] by simp
  qed
qed

theorem no_solids_aborts_witness:
  "doc_open ex_empty_part_world
   \<and> selected_body ex_panel = Some 1
   \<and> collect 10 (Objects ex_empty_part_world) 1 = Inr []
   \<and> find_object (is_group_named (''Cut_'' @ links_letter ex_panel)) (Objects ex_empty_part_world) = None
   \<and> (\<exists>m w'. is_error m \<and> A030_create_links 10 ex_panel ex_empty_part_world = Inr w'
         \<and> Objects w' = Objects ex_empty_part_world @ [(new_object ''App::DocumentObjectGroup''
                          (unique_name (map Name (Objects ex_empty_part_world))
                             (getIdentifier (''Cut_'' @ links_letter ex_panel))))
                          \<lparr>Label := ''Cut_'' @ links_letter ex_panel\<rparr>]
         \<and> reports w' = reports ex_empty_part_world @ [m])
   \<and> doc_open ex_empty_part_group_world
   \<and> collect 10 (Objects ex_empty_part_group_world) 1 = Inr []
   \<and> find_object (is_group_named (''Cut_'' @ links_letter ex_panel)) (Objects ex_empty_part_group_world) = Some 2
   \<and> (\<exists>m. is_error m \<and> A030_create_links 10 ex_panel ex_empty_part_group_world
                            = Inr (report m ex_empty_part_group_world))"
proof -
  have d: "doc_open ex_empty_part_world" "doc_open ex_empty_part_group_world"
    by (simp_all add: ex_empty_part_world_def ex_empty_part_group_world_def)
  have b: "selected_body ex_panel = Some 1"
    by (simp add: ex_panel_def)
  have c: "collect 10 (Objects ex_empty_part_world) 1 = Inr []"
    "collect 10 (Objects ex_empty_part_group_world) 1 = Inr []"
    by code_simp+
  have f: "find_object (is_group_named (''Cut_'' @ links_letter ex_panel)) (Objects ex_empty_part_world) = None"
    by code_simp
  have g: "find_object (is_group_named (''Cut_'' @ links_letter ex_panel)) (Objects ex_empty_part_group_world) = Some 2"
    by code_simp
  from no_solids_aborts [OF d(1) b c(1)] f
  have 1: "\<exists>m w'. is_error m \<and> A030_create_links 10 ex_panel ex_empty_part_world = Inr w'
         \<and> Objects w' = Objects ex_empty_part_world @ [(new_object ''App::DocumentObjectGroup''
                          (unique_name (map Name (Objects ex_empty_part_world))
                             (getIdentifier (''Cut_'' @ links_letter ex_panel))))
                          \<lparr>Label := ''Cut_'' @ links_letter ex_panel\<rparr>]
         \<and> reports w' = reports ex_empty_part_world @ [m]"
    by blast
  from no_solids_aborts [OF d(2) b c(2)] g
  have 2: "\<exists>m. is_error m \<and> A030_create_links 10 ex_panel ex_empty_part_group_world
                            = Inr (report m ex_empty_part_group_world)"
    by auto
  show ?thesis
    using d b c f g 1 2 by blast
qed

text \<open>The claim as it stands fails: for an empty part and no group \<open>Cut_F\<close>, the
  generator leaves a new group \<open>Cut_F\<close> behind.\<close>

theorem no_solids_counterexample:
  "doc_open ex_empty_part_world
   \<and> selected_body ex_panel = Some 1
   \<and> collect 10 (Objects ex_empty_part_world) 1 = Inr []
   \<and> (case A030_create_links 10 ex_panel ex_empty_part_world of
         Inl e \<Rightarrow> False
       | Inr w' \<Rightarrow> length (Objects w') = length (Objects ex_empty_part_world) + 1
                 \<and> is_group_named ''Cut_F'' (last (Objects w')))"
  by code_simp

text \<open>
  Claim C7. When the traversal of the selected body returns \<open>N\<close> leaves (\<open>N > 0\<close>), the
  link generator returns and has created exactly \<open>N\<close> objects after the per-letter
  group was found or created; all are \<open>App::Link\<close>, the \<open>k\<close>-th points at the \<open>k\<close>-th
  leaf in traversal order, is labelled \<open><letter><k, three digits>_Link_<label of the
  leaf>\<close> with \<open>k\<close> counted from 1, and is a member of the per-letter group. The objects
  that were there keep their names, labels and types.
\<close>

theorem build_links_per_leaf:
  assumes "doc_open w" "selected_body p = Some b" "collect limit (Objects w) b = Inr solids"
    "solids \<noteq> []"
  shows "\<exists>w'. A030_create_links limit p w = Inr w'
         \<and> (let grp = fst (find_or_create_group (''Cut_'' @ links_letter p) w);
                 w1 = snd (find_or_create_group (''Cut_'' @ links_letter p) w);
                 n = length (Objects w1)
             in length (Objects w') = n + length solids
              \<and> (\<forall>i < n. same_core (Objects w' ! i) (Objects w1 ! i))
              \<and> (\<forall>k < length solids.
                    TypeId (Objects w' ! (n + k)) = ''App::Link''
                  \<and> Label (Objects w' ! (n + k))
                      = links_letter p @ pad3 (k + 1) @ ''_Link_'' @ Label (Objects w ! (solids ! k))
                  \<and> LinkedObject (Objects w' ! (n + k)) = [solids ! k]
                  \<and> n + k \<in> set (Group (Objects w' ! grp))))"
proof -
  let ?n = "''Cut_'' @ links_letter p"
  let ?grp = "fst (find_or_create_group ?n w)"
  let ?w1 = "snd (find_or_create_group ?n w)"
  let ?W = "link_loop (links_letter p) ?grp 0 solids ?w1"
  have a: "A030_create_links limit p w = Inr ?W"
    using A030_run [OF assms(1-3)] assms(4) by simp
  have b0: "\<forall>x \<in> set solids. x < length (Objects w)"
    using assms(3) by (rule collect_bound)
  have "collect limit (Objects ?w1) b = Inr solids"
    using assms(3) by (simp add: find_or_create_group_collect)
  then have b: "\<forall>x \<in> set solids. x < length (Objects ?w1)"
    by (rule collect_bound)
  have g: "?grp < length (Objects ?w1)"
    by (rule find_or_create_group_valid)
  have lab: "Label (Objects ?w1 ! x) = Label (Objects w ! x)" if "x < length (Objects w)" for x
  proof (cases "find_object (is_group_named ?n) (Objects w)")
    case None
    with that show ?thesis
      using find_or_create_group_created(2) [OF None] by (simp add: nth_append)
  next
    case (Some g)
    then show ?thesis by (simp add: find_or_create_group_found)
  qed
  have new: "TypeId (Objects ?W ! (length (Objects ?w1) + k)) = ''App::Link''
       \<and> Label (Objects ?W ! (length (Objects ?w1) + k))
            = links_letter p @ pad3 (k + 1) @ ''_Link_'' @ Label (Objects w ! (solids ! k))
       \<and> LinkedObject (Objects ?W ! (length (Objects ?w1) + k)) = [solids ! k]
       \<and> length (Objects ?w1) + k \<in> set (Group (Objects ?W ! ?grp))" if k: "k < length solids" for k
  proof -
    from k b0 have "solids ! k < length (Objects w)" by simp
    then have "Label (Objects ?w1 ! (solids ! k)) = Label (Objects w ! (solids ! k))"
      by (rule lab)
    with link_loop_new [OF b g k, of "links_letter p" 0] show ?thesis
      by (simp add: sub_link_label_def)
  qed
  have old: "same_core (Objects ?W ! i) (Objects ?w1 ! i)" if "i < length (Objects ?w1)" for i
    using link_loop_old [OF b that] by simp
  have len: "length (Objects ?W) = length (Objects ?w1) + length solids"
    using b by (rule link_loop_length)
  show ?thesis
    using a len old new by (auto simp: Let_def)
qed

theorem build_links_per_leaf_witness:
  "doc_open ex_world
   \<and> selected_body ex_panel = Some 1
   \<and> collect 10 (Objects ex_world) 1 = Inr [2, 3, 4]
   \<and> (\<exists>w'. A030_create_links 10 ex_panel ex_world = Inr w'
         \<and> (let grp = fst (find_or_create_group (''Cut_'' @ links_letter ex_panel) ex_world);
                 w1 = snd (find_or_create_group (''Cut_'' @ links_letter ex_panel) ex_world);
                 n = length (Objects w1)
             in length (Objects w') = n + length [2, 3, 4 :: nat]
              \<and> (\<forall>i < n. same_core (Objects w' ! i) (Objects w1 ! i))
              \<and> (\<forall>k < length [2, 3, 4 :: nat].
                    TypeId (Objects w' ! (n + k)) = ''App::Link''
                  \<and> Label (Objects w' ! (n + k))
                      = links_letter ex_panel @ pad3 (k + 1) @ ''_Link_''
                          @ Label (Objects ex_world ! ([2, 3, 4] ! k))
                  \<and> LinkedObject (Objects w' ! (n + k)) = [[2, 3, 4] ! k]
                  \<and> n + k \<in> set (Group (Objects w' ! grp)))))
   \<and> (case A030_create_links 10 ex_panel ex_world of
         Inl e \<Rightarrow> False
       | Inr w' \<Rightarrow> map Label (drop 5 (Objects w'))
                   = [''Cut_F'', ''F001_Link_Body'', ''F002_Link_Box'', ''F003_Link_Link'']
                 \<and> Group (Objects w' ! 5) = [6, 7, 8])"
proof -
  have d: "doc_open ex_world"
    by (simp add: ex_world_def)
  have b: "selected_body ex_panel = Some 1"
    by (simp add: ex_panel_def)
  have c: "collect 10 (Objects ex_world) 1 = Inr [2, 3, 4]"
    by code_simp
  have n: "[2, 3, 4 :: nat] \<noteq> []"
    by simp
  have e: "case A030_create_links 10 ex_panel ex_world of
         Inl e \<Rightarrow> False
       | Inr w' \<Rightarrow> map Label (drop 5 (Objects w'))
                   = [''Cut_F'', ''F001_Link_Body'', ''F002_Link_Box'', ''F003_Link_Link'']
                 \<and> Group (Objects w' ! 5) = [6, 7, 8]"
    by code_simp
  show ?thesis
    using d b c e build_links_per_leaf [OF d b c n] by blast
qed

text \<open>
  Claim C3, as amended. In the state \<open>no_group\<close> the handler of "build links" does not
  reject: it runs the link generator and reports no missing container. When a body is
  selected, the generator's letter is the combo's and the traversal returns, the document
  gains the group \<open>Cut_<letter>\<close>, which the generator creates itself, and one link per
  leaf; the only report is the generator's own error when there is no leaf.
\<close>

theorem build_links_no_group_runs_generator:
  assumes "group_state w (letter_combo p) = Inr no_group"
  shows "handle_create_links limit p w = A030_create_links limit p w
       \<and> (\<forall>b solids. selected_body p = Some b \<and> links_letter p = letter_combo p
              \<and> collect limit (Objects w) b = Inr solids \<longrightarrow>
            (\<exists>w'. handle_create_links limit p w = Inr w'
               \<and> length (Objects w') = length (Objects w) + 1 + length solids
               \<and> is_group_labelled (''Cut_'' @ letter_combo p) (Objects w' ! length (Objects w))
               \<and> reports w' = reports w @ (if solids = []
                    then [MessageBoxCritical ''Error'' ''No solids found in the selected body or assembly.'']
                    else [])))"
proof (intro conjI allI impI)
  show h: "handle_create_links limit p w = A030_create_links limit p w"
    using assms by (simp add: handle_create_links_def)
  fix b solids
  assume c: "selected_body p = Some b \<and> links_letter p = letter_combo p
              \<and> collect limit (Objects w) b = Inr solids"
  from assms have d: "doc_open w"
    and f: "find_object (is_group_named (''Cut_'' @ letter_combo p)) (Objects w) = None"
    using group_state_no_group by blast+
  from c f have f': "find_object (is_group_named (''Cut_'' @ links_letter p)) (Objects w) = None"
    by simp
  from c have sb: "selected_body p = Some b" and co: "collect limit (Objects w) b = Inr solids"
    by simp_all
  from A030_creates_group [OF d sb f' co]
  obtain w' where w': "A030_create_links limit p w = Inr w'"
    "length (Objects w') = length (Objects w) + 1 + length solids"
    "same_core (Objects w' ! length (Objects w))
              ((new_object ''App::DocumentObjectGroup''
                  (unique_name (map Name (Objects w)) (getIdentifier (''Cut_'' @ links_letter p))))
                 \<lparr>Label := ''Cut_'' @ links_letter p\<rparr>)"
    "reports w' = reports w @ (if solids = []
              then [MessageBoxCritical ''Error'' ''No solids found in the selected body or assembly.'']
              else [])"
    by blast
  from w'(3) c have "is_group_labelled (''Cut_'' @ letter_combo p) (Objects w' ! length (Objects w))"
    by (simp add: same_core_def is_group_labelled_def)
  with h w'(1,2,4) show "\<exists>w'. handle_create_links limit p w = Inr w'
               \<and> length (Objects w') = length (Objects w) + 1 + length solids
               \<and> is_group_labelled (''Cut_'' @ letter_combo p) (Objects w' ! length (Objects w))
               \<and> reports w' = reports w @ (if solids = []
                    then [MessageBoxCritical ''Error'' ''No solids found in the selected body or assembly.'']
                    else [])"
    by simp
qed

theorem build_links_no_group_witness:
  "group_state ex_world (letter_combo ex_panel) = Inr no_group
   \<and> handle_create_links 10 ex_panel ex_world = A030_create_links 10 ex_panel ex_world
   \<and> selected_body ex_panel = Some 1
   \<and> links_letter ex_panel = letter_combo ex_panel
   \<and> collect 10 (Objects ex_world) 1 = Inr [2, 3, 4]
   \<and> (\<exists>w'. handle_create_links 10 ex_panel ex_world = Inr w'
         \<and> length (Objects w') = length (Objects ex_world) + 1 + length [2, 3, 4 :: nat]
         \<and> is_group_labelled (''Cut_'' @ letter_combo ex_panel) (Objects w' ! length (Objects ex_world))
         \<and> reports w' = reports ex_world @ (if [2, 3, 4 :: nat] = []
              then [MessageBoxCritical ''Error'' ''No solids found in the selected body or assembly.'']
              else []))"
proof -
  have s: "group_state ex_world (letter_combo ex_panel) = Inr no_group"
    by code_simp
  have b: "selected_body ex_panel = Some 1"
    by (simp add: ex_panel_def)
  have l: "links_letter ex_panel = letter_combo ex_panel"
    by code_simp
  have c: "collect 10 (Objects ex_world) 1 = Inr [2, 3, 4]"
    by code_simp
  show ?thesis
    using s b l c build_links_no_group_runs_generator [OF s, of 10] by blast
qed

text \<open>The claim as it stands fails: in the example document, whose state for \<open>F\<close> is
  \<open>no_group\<close>, the handler reports nothing and adds a group and three links.\<close>

theorem build_links_no_group_counterexample:
  "group_state ex_world (letter_combo ex_panel) = Inr no_group
   \<and> (case handle_create_links 10 ex_panel ex_world of
         Inl e \<Rightarrow> False
       | Inr w' \<Rightarrow> reports w' = []
                 \<and> length (Objects w') = length (Objects ex_world) + 4
                 \<and> map TypeId (drop 5 (Objects w'))
                     = [''App::DocumentObjectGroup'', ''App::Link'', ''App::Link'', ''App::Link''])"
  by code_simp

text \<open>
  Claim C10. When the link generator runs (document open, body selected, traversal
  returning) and no group named \<open>Cut_<letter>\<close> exists, it creates the group as a new
  document object labelled \<open>Cut_<letter>\<close> and adds it to no container: in the
  document it leaves, no object, the root container included, has the new group among
  its members.
\<close>

theorem link_generator_group_top_level:
  assumes "doc_open w" "selected_body p = Some b"
    "find_object (is_group_named (''Cut_'' @ links_letter p)) (Objects w) = None"
    "wf_doc w" "collect limit (Objects w) b = Inr solids"
  shows "\<exists>w'. A030_create_links limit p w = Inr w'
         \<and> length (Objects w) < length (Objects w')
         \<and> is_group_labelled (''Cut_'' @ links_letter p) (Objects w' ! length (Objects w))
         \<and> Name (Objects w' ! length (Objects w))
             = unique_name (map Name (Objects w)) (getIdentifier (''Cut_'' @ links_letter p))
         \<and> (\<forall>ob \<in> set (Objects w'). length (Objects w) \<notin> set (Group ob))"
proof -
  from A030_creates_group [OF assms(1,2,3,5)]
  obtain w' where w': "A030_create_links limit p w = Inr w'"
    "length (Objects w') = length (Objects w) + 1 + length solids"
    "same_core (Objects w' ! length (Objects w))
              ((new_object ''App::DocumentObjectGroup''
                  (unique_name (map Name (Objects w)) (getIdentifier (''Cut_'' @ links_letter p))))
                 \<lparr>Label := ''Cut_'' @ links_letter p\<rparr>)"
    and grp: "\<forall>i < length (Objects w'). set (Group (Objects w' ! i))
               \<subseteq> set (Group (obj_at (Objects w) i)) \<union> {length (Objects w) + 1 ..< length (Objects w')}"
    by blast
  have "length (Objects w) \<notin> set (Group ob)" if "ob \<in> set (Objects w')" for ob
  proof
    assume m: "length (Objects w) \<in> set (Group ob)"
    from that obtain i where i: "i < length (Objects w')" "ob = Objects w' ! i"
      by (auto simp: in_set_conv_nth)
    from grp i(1) have "set (Group (Objects w' ! i))
               \<subseteq> set (Group (obj_at (Objects w) i)) \<union> {length (Objects w) + 1 ..< length (Objects w')}"
      by blast
    with m i(2) have "length (Objects w) \<in> set (Group (obj_at (Objects w) i))"
      by auto
    then show False
      using wf_doc_Group [OF assms(4), of i "length (Objects w)"]
      by (auto simp: obj_at_def split: if_splits)
  qed
  with w' show ?thesis
    by (auto simp: same_core_def is_group_labelled_def)
qed

theorem link_generator_group_top_level_witness:
  "doc_open ex_world
   \<and> selected_body ex_panel = Some 1
   \<and> find_object (is_group_named (''Cut_'' @ links_letter ex_panel)) (Objects ex_world) = None
   \<and> wf_doc ex_world
   \<and> collect 10 (Objects ex_world) 1 = Inr [2, 3, 4]
   \<and> (\<exists>w'. A030_create_links 10 ex_panel ex_world = Inr w'
         \<and> length (Objects ex_world) < length (Objects w')
         \<and> is_group_labelled (''Cut_'' @ links_letter ex_panel) (Objects w' ! length (Objects ex_world))
         \<and> Name (Objects w' ! length (Objects ex_world))
             = unique_name (map Name (Objects ex_world)) (getIdentifier (''Cut_'' @ links_letter ex_panel))
         \<and> \<not> (\<exists>ob \<in> set (Objects w'). length (Objects ex_world) \<in> set (Group ob)))"
proof -
  have d: "doc_open ex_world"
    by (simp add: ex_world_def)
  have b: "selected_body ex_panel = Some 1"
    by (simp add: ex_panel_def)
  have f: "find_object (is_group_named (''Cut_'' @ links_letter ex_panel)) (Objects ex_world) = None"
    by code_simp
  have w: "wf_doc ex_world"
    by code_simp
  have c: "collect 10 (Objects ex_world) 1 = Inr [2, 3, 4]"
    by code_simp
  show ?thesis
    using d b f w c link_generator_group_top_level [OF d b f w c] by blast
qed

section \<open>The cut executor\<close>

lemma find_object_append_none:
  assumes "\<forall>y \<in> set ys. \<not> P y"
  shows "find_object P (xs @ ys) = find_object P xs"
proof (cases "find_object P xs")
  case None
  then have "\<forall>x \<in> set xs. \<not> P x" by (simp add: find_object_None)
  with assms have "find_object P (xs @ ys) = None" by (auto simp: find_object_None)
  with None show ?thesis by simp
next
  case (Some g)
  then have "g < length xs" "P (xs ! g)" "\<forall>j < g. \<not> P (xs ! j)"
    by (simp_all add: find_object_Some)
  then have "find_object P (xs @ ys) = Some g"
    by (simp add: find_object_Some nth_append)
  with Some show ?thesis by simp
qed

lemma skipped_iff: "skipped objs r \<longleftrightarrow> cube_for objs r = None"
  by (auto simp: skipped_def cube_for_def find_object_None list_ex_iff split: option.splits)

lemma Cutcube_not_bracket:
  "s \<noteq> [] \<Longrightarrow> last s = CHR '']'' \<Longrightarrow> s \<noteq> prefix @ ''_Cutcube''"
  by auto

lemma cube_for_append:
  assumes "\<forall>ob \<in> set ex. Label ob \<noteq> [] \<and> last (Label ob) = CHR '']''" "r < length objs"
  shows "cube_for (objs @ ex) r = cube_for objs r"
proof -
  have "find_object (\<lambda>ob. Label ob = prefix @ ''_Cutcube'') (objs @ ex)
        = find_object (\<lambda>ob. Label ob = prefix @ ''_Cutcube'') objs" for prefix
    using assms(1) by (intro find_object_append_none) (auto dest: Cutcube_not_bracket)
  with assms(2) show ?thesis
    by (simp add: cube_for_def nth_append split: option.splits)
qed

lemma getIdentifier_Cut: "getIdentifier ''Cut'' = ''Cut''"
  by code_simp

lemma Part_Cut_pair:
  "selection w = [a, b] \<Longrightarrow>
   Objects (Part_Cut w) = Objects w @ [(new_object ''Part::Cut'' (unique_name (map Name (Objects w)) ''Cut''))
        \<lparr>Base := Some a, Tool := Some b, OutList := [a, b]\<rparr>]
   \<and> ActiveObject (Part_Cut w) = Some (length (Objects w))
   \<and> reports (Part_Cut w) = reports w \<and> doc_open (Part_Cut w) = doc_open w"
  by (simp add: Part_Cut_def doc_addObject_def Let_def upd_obj_def getIdentifier_Cut
        list_update_append_last)

lemma cut_step_skip:
  assumes "cube_for (Objects w) r = None"
  shows "\<exists>s. cut_step r w = report (PrintWarning s) w"
proof (cases "match_link_prefix (Label (obj_at (Objects w) r))")
  case None
  then have "cut_step r w = report (PrintWarning (''No valid link prefix found in ''
      @ Label (obj_at (Objects w) r) @ ''\<newline>'')) w"
    by (simp add: cut_step_def Let_def)
  then show ?thesis by (rule exI)
next
  case (Some prefix)
  with assms have "find_object (\<lambda>ob. Label ob = prefix @ ''_Cutcube'') (Objects w) = None"
    by (simp add: cube_for_def)
  with Some have "cut_step r w = report (PrintWarning (''No cut cube found for ''
      @ Label (obj_at (Objects w) r) @ '' (searched: '' @ (prefix @ ''_Cutcube'') @ '')\<newline>'')) w"
    by (simp add: cut_step_def Let_def)
  then show ?thesis by (rule exI)
qed

lemma cut_step_cut:
  assumes "cube_for (Objects w) r = Some c"
  shows "\<exists>ob s. Objects (cut_step r w) = Objects w @ [ob]
           \<and> TypeId ob = ''Part::Cut'' \<and> Base ob = Some r \<and> Tool ob = Some c
           \<and> Label ob \<noteq> [] \<and> last (Label ob) = CHR '']''
           \<and> reports (cut_step r w) = reports w @ [PrintMessage s]
           \<and> doc_open (cut_step r w) = doc_open w"
proof -
  from assms obtain prefix where
    p: "match_link_prefix (Label (obj_at (Objects w) r)) = Some prefix"
    and f: "find_object (\<lambda>ob. Label ob = prefix @ ''_Cutcube'') (Objects w) = Some c"
    by (auto simp: cube_for_def split: option.splits)
  let ?w1 = "addSelection c (addSelection r (clearSelection w))"
  have "selection ?w1 = [r, c]" by simp
  from Part_Cut_pair [OF this]
  have pc: "Objects (Part_Cut ?w1) = Objects w @ [(new_object ''Part::Cut'' (unique_name (map Name (Objects w)) ''Cut''))
        \<lparr>Base := Some r, Tool := Some c, OutList := [r, c]\<rparr>]"
    "ActiveObject (Part_Cut ?w1) = Some (length (Objects w))"
    "reports (Part_Cut ?w1) = reports w" "doc_open (Part_Cut ?w1) = doc_open w"
    by simp_all
  show ?thesis
    using p f pc
    by (simp add: cut_step_def Let_def list_update_append_last)
qed

lemma cuts_loop:
  assumes "Objects W = Objects w @ ex"
    "\<forall>ob \<in> set ex. Label ob \<noteq> [] \<and> last (Label ob) = CHR '']''"
    "\<forall>r \<in> set rs. r < length (Objects w)"
  shows "\<exists>ex' ms. Objects (fold cut_step rs W) = Objects W @ ex'
         \<and> map (\<lambda>ob. (TypeId ob, Base ob, Tool ob)) ex'
             = map (\<lambda>r. (''Part::Cut'', Some r, cube_for (Objects w) r))
                 (filter (\<lambda>r. \<not> skipped (Objects w) r) rs)
         \<and> reports (fold cut_step rs W) = reports W @ ms
         \<and> map is_warning ms = map (skipped (Objects w)) rs"
  using assms
proof (induction rs arbitrary: W ex)
  case Nil
  then show ?case by simp
next
  case (Cons r rs)
  from Cons.prems have r: "r < length (Objects w)" and rs: "\<forall>x \<in> set rs. x < length (Objects w)"
    by simp_all
  have cf: "cube_for (Objects W) r = cube_for (Objects w) r"
    using Cons.prems(1,2) r by (simp add: cube_for_append)
  show ?case
  proof (cases "cube_for (Objects w) r")
    case None
    with cf cut_step_skip [of W r] obtain s where s: "cut_step r W = report (PrintWarning s) W"
      by auto
    then have o: "Objects (cut_step r W) = Objects w @ ex"
      using Cons.prems(1) by simp
    from Cons.IH [OF o Cons.prems(2) rs]
    obtain ex' ms where
      "Objects (fold cut_step rs (cut_step r W)) = Objects (cut_step r W) @ ex'"
      "map (\<lambda>ob. (TypeId ob, Base ob, Tool ob)) ex'
             = map (\<lambda>r. (''Part::Cut'', Some r, cube_for (Objects w) r))
                 (filter (\<lambda>r. \<not> skipped (Objects w) r) rs)"
      "reports (fold cut_step rs (cut_step r W)) = reports (cut_step r W) @ ms"
      "map is_warning ms = map (skipped (Objects w)) rs"
      by blast
    with s None show ?thesis
      by (intro exI [of _ ex'] exI [of _ "PrintWarning s # ms"]) (simp add: skipped_iff)
  next
    case (Some c)
    with cf cut_step_cut [of W r c] obtain ob s where
      ob: "Objects (cut_step r W) = Objects W @ [ob]"
        "TypeId ob = ''Part::Cut''" "Base ob = Some r" "Tool ob = Some c"
        "Label ob \<noteq> [] \<and> last (Label ob) = CHR '']''"
        "reports (cut_step r W) = reports W @ [PrintMessage s]"
      by auto
    from ob(1) Cons.prems(1) have o: "Objects (cut_step r W) = Objects w @ (ex @ [ob])"
      by simp
    from ob(5) Cons.prems(2)
    have e: "\<forall>x \<in> set (ex @ [ob]). Label x \<noteq> [] \<and> last (Label x) = CHR '']''"
      by auto
    from Cons.IH [OF o e rs]
    obtain ex' ms where
      "Objects (fold cut_step rs (cut_step r W)) = Objects (cut_step r W) @ ex'"
      "map (\<lambda>ob. (TypeId ob, Base ob, Tool ob)) ex'
             = map (\<lambda>r. (''Part::Cut'', Some r, cube_for (Objects w) r))
                 (filter (\<lambda>r. \<not> skipped (Objects w) r) rs)"
      "reports (fold cut_step rs (cut_step r W)) = reports (cut_step r W) @ ms"
      "map is_warning ms = map (skipped (Objects w)) rs"
      by blast
    with ob Some show ?thesis
      by (intro exI [of _ "ob # ex'"] exI [of _ "PrintMessage s # ms"]) (simp add: skipped_iff)
  qed
qed

text \<open>
  Claim C9. During "build cuts", a proxy is skipped when its label does not match the
  pattern (a capital letter, digits, \<open>_Link\<close>) or no object is labelled
  \<open><prefix>_Cutcube\<close>. The executor leaves the objects it found as they were and appends
  one \<open>Part::Cut\<close> for each proxy that is not skipped, in order, made from that proxy and
  its cube; it makes one report per proxy, in order, which is a warning exactly for the
  skipped ones. So a skipped proxy gives one warning and no cut, and does not stop the
  pairs after it.
\<close>

theorem cuts_skip_unmatched:
  assumes "\<forall>r \<in> set sub_links. r < length (Objects w)"
  shows "\<exists>cuts ms. Objects (A050_create_cuts sub_links letter num_cubes w) = Objects w @ cuts
         \<and> map (\<lambda>ob. (TypeId ob, Base ob, Tool ob)) cuts
             = map (\<lambda>r. (''Part::Cut'', Some r, cube_for (Objects w) r))
                 (filter (\<lambda>r. \<not> skipped (Objects w) r) sub_links)
         \<and> reports (A050_create_cuts sub_links letter num_cubes w) = reports w @ ms
         \<and> map is_warning ms = map (skipped (Objects w)) sub_links"
  unfolding A050_create_cuts_def
  using cuts_loop [of w w "[]" sub_links] assms by simp

theorem cuts_skip_unmatched_witness:
  "\<not> (\<exists>r \<in> set [0, 1, 2]. \<not> r < length (Objects ex_cuts_world))
   \<and> (\<exists>cuts ms. Objects (A050_create_cuts [0, 1, 2] ''F'' 3 ex_cuts_world) = Objects ex_cuts_world @ cuts
         \<and> map (\<lambda>ob. (TypeId ob, Base ob, Tool ob)) cuts
             = map (\<lambda>r. (''Part::Cut'', Some r, cube_for (Objects ex_cuts_world) r))
                 (filter (\<lambda>r. \<not> skipped (Objects ex_cuts_world) r) [0, 1, 2])
         \<and> reports (A050_create_cuts [0, 1, 2] ''F'' 3 ex_cuts_world) = reports ex_cuts_world @ ms
         \<and> map is_warning ms = map (skipped (Objects ex_cuts_world)) [0, 1, 2])
   \<and> map (skipped (Objects ex_cuts_world)) [0, 1, 2] = [False, True, True]
   \<and> cube_for (Objects ex_cuts_world) 0 = Some 3
   \<and> map TypeId (drop 4 (Objects (A050_create_cuts [0, 1, 2] ''F'' 3 ex_cuts_world))) = [''Part::Cut'']
   \<and> map is_warning (reports (A050_create_cuts [0, 1, 2] ''F'' 3 ex_cuts_world)) = [False, True, True]"
proof -
  have h: "\<forall>r \<in> set [0, 1, 2]. r < length (Objects ex_cuts_world)"
    by (simp add: ex_cuts_world_def)
  have e: "map (skipped (Objects ex_cuts_world)) [0, 1, 2] = [False, True, True]"
    "cube_for (Objects ex_cuts_world) 0 = Some 3"
    "map TypeId (drop 4 (Objects (A050_create_cuts [0, 1, 2] ''F'' 3 ex_cuts_world))) = [''Part::Cut'']"
    "map is_warning (reports (A050_create_cuts [0, 1, 2] ''F'' 3 ex_cuts_world)) = [False, True, True]"
    by code_simp+
  show ?thesis
    using h e cuts_skip_unmatched [OF h, of "''F''" 3] by blast
qed

section \<open>Building the group twice\<close>













lemma All_Cutviews_not_Cut: "''All_Cutviews'' @ s \<noteq> ''Cut_'' @ t"
  by simp


lemma letter_containers_report [simp]:
  "letter_containers L (report m w) = letter_containers L w"
  by (simp add: letter_containers_def split: option.splits)



end
